theory Spec2Isabelle
  imports Main "HOL-Library.Word"
begin

section \<open>The fleet daemon of \<^verbatim>\<open>pkg/fleet/daemon/daemon.go\<close>\<close>

text \<open>
  The daemon is embedded as functions on an explicit daemon state. The installer and the
  remote-config client are interfaces whose implementations live elsewhere: the installer is
  a record of operations over an installer state of any type, and every call the daemon
  makes on either collaborator is appended, with its result, to the field \<open>calls\<close>.
  Tracing spans and log lines have no effect on anything modelled and are left out.
\<close>

subsection \<open>Errors and outcomes\<close>

text \<open>
  A Go \<^verbatim>\<open>error\<close> value. \<open>New s\<close> is an error with message \<open>s\<close> and nothing inside;
  \<open>Wrap p e\<close> is \<^verbatim>\<open>fmt.Errorf(p + "%w", e)\<close>. A nil error is \<open>None\<close> of \<open>error option\<close>.
\<close>

datatype error = New string | Wrap string error

text \<open>
  A call either returns, or blocks forever (a mutex that is held, a wait group that is not
  at zero, a full channel, with no other goroutine running), or panics.
\<close>

datatype 'a outcome = Returns 'a | Blocks | Panics

definition obind :: "'a outcome \<Rightarrow> ('a \<Rightarrow> 'b outcome) \<Rightarrow> 'b outcome" where
  "obind x f = (case x of Returns a \<Rightarrow> f a | Blocks \<Rightarrow> Blocks | Panics \<Rightarrow> Panics)"

subsection \<open>Data\<close>

text \<open>\<^verbatim>\<open>repository.State\<close>, of which the daemon reads the two version fields.\<close>

record repository_State =
  Stable :: string
  Experiment :: string

text \<open>
  Modelled from the spec: \<^verbatim>\<open>Package\<close>, \<^verbatim>\<open>catalog\<close> and its lookup \<^verbatim>\<open>getPackage\<close> are
  declared outside the given sources. The spec gives a package a name, a version, a target
  OS, a target architecture and a download URL, and makes the catalog a mapping from
  (name, version, OS, architecture) to a package whose lookup is pure and reports
  found or not found.
\<close>

record Package =
  Name :: string
  Version :: string
  Platform :: string
  Arch :: string
  URL :: string

type_synonym catalog = "string \<times> string \<times> string \<times> string \<Rightarrow> Package option"

definition empty_Package :: Package where
  "empty_Package = \<lparr>Name = [], Version = [], Platform = [], Arch = [], URL = []\<rparr>"

definition getPackage :: "catalog \<Rightarrow> string \<Rightarrow> string \<Rightarrow> string \<Rightarrow> string \<Rightarrow> Package \<times> bool" where
  "getPackage c pkg version arch platform =
     (case c (pkg, version, platform, arch) of
        Some p \<Rightarrow> (p, True)
      | None \<Rightarrow> (empty_Package, False))"

text \<open>
  Modelled from the spec: the request type and the method constants are declared outside
  the given sources. A request has an ID, a target package, a method, an opaque parameter
  payload, the expected stable and experiment versions, and trace identifiers; the methods
  are StartExperiment, StopExperiment and PromoteExperiment.
\<close>

record expectedState =
  es_Stable :: string
  es_Experiment :: string

record remoteAPIRequest =
  req_ID :: string
  req_Package :: string
  req_TraceID :: string
  req_ParentSpanID :: string
  req_ExpectedState :: expectedState
  req_Method :: string
  req_Params :: string

record taskWithVersionParams =
  tp_Version :: string

definition methodStartExperiment :: string where
  "methodStartExperiment = ''StartExperiment''"

definition methodStopExperiment :: string where
  "methodStopExperiment = ''StopExperiment''"

definition methodPromoteExperiment :: string where
  "methodPromoteExperiment = ''PromoteExperiment''"

text \<open>
  Modelled from the spec: \<^verbatim>\<open>installerErrors.InstallerError\<close> is declared outside the given
  sources; the spec makes it a numeric code and a message.
\<close>

record InstallerError =
  ie_Code :: nat
  ie_Error :: string

text \<open>The protobuf task state and package state that \<^verbatim>\<open>refreshState\<close> publishes.\<close>

datatype TaskState = RUNNING | DONE | INVALID_STATE | ERROR

record TaskError =
  te_Code :: "64 word"
  te_Message :: string

record PackageStateTask =
  task_Id :: string
  task_State :: TaskState
  task_Error :: "TaskError option"

record PackageState =
  ps_Package :: string
  StableVersion :: string
  ExperimentVersion :: string
  Task :: "PackageStateTask option"

text \<open>
  \<^verbatim>\<open>requestState\<close>, the record that \<^verbatim>\<open>newRequestContext\<close> stores in the context. A context
  is modelled by what \<^verbatim>\<open>ctx.Value(requestStateKey)\<close> finds in it: \<open>Some\<close> request state
  under a remote request, \<open>None\<close> for a local call (the key is private to the package).
  The Go code mutates the record through its pointer; the model passes the updated record
  on.
\<close>

record requestState =
  rs_Package :: string
  rs_ID :: string
  rs_State :: TaskState
  rs_Err :: "InstallerError option"

subsection \<open>The collaborators\<close>

text \<open>A call on the installer, with what it returned, or on the remote-config client.\<close>

datatype call =
    CInstall string "error option"
  | CInstallExperiment string "error option"
  | CPromoteExperiment string "error option"
  | CRemoveExperiment string "error option"
  | CState string "error + repository_State"
  | CStates "error + (string \<times> repository_State) list"
  | CGarbageCollect "error option"
  | CSetState "PackageState list"
  | CRcStart
  | CRcClose

fun is_mutating :: "call \<Rightarrow> bool" where
  "is_mutating (CInstall _ _) = True"
| "is_mutating (CInstallExperiment _ _) = True"
| "is_mutating (CPromoteExperiment _ _) = True"
| "is_mutating (CRemoveExperiment _ _) = True"
| "is_mutating _ = False"

fun is_installer_call :: "call \<Rightarrow> bool" where
  "is_installer_call (CSetState _) = False"
| "is_installer_call CRcStart = False"
| "is_installer_call CRcClose = False"
| "is_installer_call _ = True"

text \<open>
  The environment of the daemon: the methods of the \<^verbatim>\<open>installer.Installer\<close> interface, each
  taking the installer's state and returning its result with the new state (a Go map is an
  association list, iterated in list order); \<^verbatim>\<open>runtime.GOARCH\<close> and \<^verbatim>\<open>runtime.GOOS\<close>;
  \<^verbatim>\<open>json.Unmarshal\<close> into a \<^verbatim>\<open>taskWithVersionParams\<close>; and \<^verbatim>\<open>installerErrors.From\<close>.
\<close>

record 'i env =
  inst_Install :: "string \<Rightarrow> 'i \<Rightarrow> error option \<times> 'i"
  inst_InstallExperiment :: "string \<Rightarrow> 'i \<Rightarrow> error option \<times> 'i"
  inst_PromoteExperiment :: "string \<Rightarrow> 'i \<Rightarrow> error option \<times> 'i"
  inst_RemoveExperiment :: "string \<Rightarrow> 'i \<Rightarrow> error option \<times> 'i"
  inst_State :: "string \<Rightarrow> 'i \<Rightarrow> (error + repository_State) \<times> 'i"
  inst_States :: "'i \<Rightarrow> (error + (string \<times> repository_State) list) \<times> 'i"
  inst_GarbageCollect :: "'i \<Rightarrow> error option \<times> 'i"
  GOARCH :: string
  GOOS :: string
  json_Unmarshal :: "string \<Rightarrow> error + taskWithVersionParams"
  From :: "error \<Rightarrow> InstallerError"

subsection \<open>The daemon state\<close>

text \<open>
  \<^verbatim>\<open>daemonImpl\<close>: \<open>m\<close> is true while the mutex is held, \<open>stopChan\<close> is true once the channel is
  closed, \<open>installer\<close> is the state behind the installer handle, \<open>requests\<close> is the content
  of the buffered channel (oldest first) and \<open>requestsWG\<close> the counter of the wait group.
  The remote-config handle \<^verbatim>\<open>rc\<close> is represented by the calls made on it, which \<open>calls\<close>
  records in order together with the installer calls.
\<close>

record 'i daemonImpl =
  m :: bool
  stopChan :: bool
  installer :: 'i
  remoteUpdates :: bool
  catalog :: catalog
  requests :: "remoteAPIRequest list"
  requestsWG :: int
  calls :: "call list"

definition Lock :: "'i daemonImpl \<Rightarrow> 'i daemonImpl outcome" where
  "Lock d = (if m d then Blocks else Returns (d\<lparr>m := True\<rparr>))"

definition Unlock :: "'i daemonImpl \<Rightarrow> 'i daemonImpl" where
  "Unlock d = d\<lparr>m := False\<rparr>"

definition requestsWG_Add :: "int \<Rightarrow> 'i daemonImpl \<Rightarrow> 'i daemonImpl outcome" where
  "requestsWG_Add n d =
     (if requestsWG d + n < 0 then Panics else Returns (d\<lparr>requestsWG := requestsWG d + n\<rparr>))"

definition requestsWG_Done :: "'i daemonImpl \<Rightarrow> 'i daemonImpl outcome" where
  "requestsWG_Done d = requestsWG_Add (- 1) d"

definition requestsWG_Wait :: "'i daemonImpl \<Rightarrow> 'i daemonImpl outcome" where
  "requestsWG_Wait d = (if requestsWG d = 0 then Returns d else Blocks)"

subsection \<open>Calls on the collaborators\<close>

definition call_Install :: "'i env \<Rightarrow> string \<Rightarrow> 'i daemonImpl \<Rightarrow> error option \<times> 'i daemonImpl" where
  "call_Install E url d =
     (case inst_Install E url (installer d) of
        (r, i) \<Rightarrow> (r, d\<lparr>installer := i, calls := calls d @ [CInstall url r]\<rparr>))"

definition call_InstallExperiment :: "'i env \<Rightarrow> string \<Rightarrow> 'i daemonImpl \<Rightarrow> error option \<times> 'i daemonImpl" where
  "call_InstallExperiment E url d =
     (case inst_InstallExperiment E url (installer d) of
        (r, i) \<Rightarrow> (r, d\<lparr>installer := i, calls := calls d @ [CInstallExperiment url r]\<rparr>))"

definition call_PromoteExperiment :: "'i env \<Rightarrow> string \<Rightarrow> 'i daemonImpl \<Rightarrow> error option \<times> 'i daemonImpl" where
  "call_PromoteExperiment E pkg d =
     (case inst_PromoteExperiment E pkg (installer d) of
        (r, i) \<Rightarrow> (r, d\<lparr>installer := i, calls := calls d @ [CPromoteExperiment pkg r]\<rparr>))"

definition call_RemoveExperiment :: "'i env \<Rightarrow> string \<Rightarrow> 'i daemonImpl \<Rightarrow> error option \<times> 'i daemonImpl" where
  "call_RemoveExperiment E pkg d =
     (case inst_RemoveExperiment E pkg (installer d) of
        (r, i) \<Rightarrow> (r, d\<lparr>installer := i, calls := calls d @ [CRemoveExperiment pkg r]\<rparr>))"

definition call_State ::
  "'i env \<Rightarrow> string \<Rightarrow> 'i daemonImpl \<Rightarrow> (error + repository_State) \<times> 'i daemonImpl" where
  "call_State E pkg d =
     (case inst_State E pkg (installer d) of
        (r, i) \<Rightarrow> (r, d\<lparr>installer := i, calls := calls d @ [CState pkg r]\<rparr>))"

definition call_States ::
  "'i env \<Rightarrow> 'i daemonImpl \<Rightarrow> (error + (string \<times> repository_State) list) \<times> 'i daemonImpl" where
  "call_States E d =
     (case inst_States E (installer d) of
        (r, i) \<Rightarrow> (r, d\<lparr>installer := i, calls := calls d @ [CStates r]\<rparr>))"

definition call_GarbageCollect :: "'i env \<Rightarrow> 'i daemonImpl \<Rightarrow> error option \<times> 'i daemonImpl" where
  "call_GarbageCollect E d =
     (case inst_GarbageCollect E (installer d) of
        (r, i) \<Rightarrow> (r, d\<lparr>installer := i, calls := calls d @ [CGarbageCollect r]\<rparr>))"

definition rc_SetState :: "PackageState list \<Rightarrow> 'i daemonImpl \<Rightarrow> 'i daemonImpl" where
  "rc_SetState packages d = d\<lparr>calls := calls d @ [CSetState packages]\<rparr>"

definition rc_Start :: "'i daemonImpl \<Rightarrow> 'i daemonImpl" where
  "rc_Start d = d\<lparr>calls := calls d @ [CRcStart]\<rparr>"

definition rc_Close :: "'i daemonImpl \<Rightarrow> 'i daemonImpl" where
  "rc_Close d = d\<lparr>calls := calls d @ [CRcClose]\<rparr>"

subsection \<open>Request state\<close>

definition newRequestContext :: "remoteAPIRequest \<Rightarrow> requestState" where
  "newRequestContext request =
     \<lparr>rs_Package = req_Package request, rs_ID = req_ID request, rs_State = RUNNING, rs_Err = None\<rparr>"

definition setRequestInvalid :: "requestState \<Rightarrow> requestState" where
  "setRequestInvalid state = state\<lparr>rs_State := INVALID_STATE\<rparr>"

definition setRequestDone :: "'i env \<Rightarrow> requestState \<Rightarrow> error option \<Rightarrow> requestState" where
  "setRequestDone E state err =
     (let state = state\<lparr>rs_State := DONE\<rparr>
      in case err of
           None \<Rightarrow> state
         | Some e \<Rightarrow> state\<lparr>rs_State := ERROR, rs_Err := Some (From E e)\<rparr>)"

subsection \<open>refreshState\<close>

definition packageState ::
  "requestState option \<Rightarrow> string \<times> repository_State \<Rightarrow> PackageState" where
  "packageState ctx = (\<lambda>(pkg, s).
     \<lparr>ps_Package = pkg, StableVersion = Stable s, ExperimentVersion = Experiment s,
      Task = (case ctx of
                None \<Rightarrow> None
              | Some requestState \<Rightarrow>
                  if pkg = rs_Package requestState
                  then Some \<lparr>task_Id = rs_ID requestState, task_State = rs_State requestState,
                             task_Error = (case rs_Err requestState of
                                             None \<Rightarrow> None
                                           | Some e \<Rightarrow> Some \<lparr>te_Code = of_nat (ie_Code e),
                                                              te_Message = ie_Error e\<rparr>)\<rparr>
                  else None)\<rparr>)"

definition refreshState :: "'i env \<Rightarrow> requestState option \<Rightarrow> 'i daemonImpl \<Rightarrow> 'i daemonImpl" where
  "refreshState E ctx d =
     (case call_States E d of
        (Inl err, d) \<Rightarrow> d
      | (Inr state, d) \<Rightarrow> rc_SetState (map (packageState ctx) state) d)"

subsection \<open>The operations under the lock\<close>

definition wrap :: "string \<Rightarrow> error option \<Rightarrow> error option" where
  "wrap prefix err = (case err of None \<Rightarrow> None | Some e \<Rightarrow> Some (Wrap prefix e))"

definition install ::
  "'i env \<Rightarrow> requestState option \<Rightarrow> string \<Rightarrow> 'i daemonImpl \<Rightarrow> error option \<times> 'i daemonImpl" where
  "install E ctx url d =
     (let d = refreshState E ctx d
      in case call_Install E url d of
           (err, d) \<Rightarrow> (wrap ''could not install: '' err, refreshState E ctx d))"

definition startExperiment ::
  "'i env \<Rightarrow> requestState option \<Rightarrow> string \<Rightarrow> 'i daemonImpl \<Rightarrow> error option \<times> 'i daemonImpl" where
  "startExperiment E ctx url d =
     (let d = refreshState E ctx d
      in case call_InstallExperiment E url d of
           (err, d) \<Rightarrow> (wrap ''could not install experiment: '' err, refreshState E ctx d))"

definition promoteExperiment ::
  "'i env \<Rightarrow> requestState option \<Rightarrow> string \<Rightarrow> 'i daemonImpl \<Rightarrow> error option \<times> 'i daemonImpl" where
  "promoteExperiment E ctx pkg d =
     (let d = refreshState E ctx d
      in case call_PromoteExperiment E pkg d of
           (err, d) \<Rightarrow> (wrap ''could not promote experiment: '' err, refreshState E ctx d))"

definition stopExperiment ::
  "'i env \<Rightarrow> requestState option \<Rightarrow> string \<Rightarrow> 'i daemonImpl \<Rightarrow> error option \<times> 'i daemonImpl" where
  "stopExperiment E ctx pkg d =
     (let d = refreshState E ctx d
      in case call_RemoveExperiment E pkg d of
           (err, d) \<Rightarrow> (wrap ''could not stop experiment: '' err, refreshState E ctx d))"

subsection \<open>The public operations\<close>

text \<open>
  Each takes the mutex, runs, and releases the mutex on the way out
  (\<^verbatim>\<open>d.m.Lock(); defer d.m.Unlock()\<close>).
\<close>

definition locked ::
  "('i daemonImpl \<Rightarrow> 'a \<times> 'i daemonImpl) \<Rightarrow> 'i daemonImpl \<Rightarrow> ('a \<times> 'i daemonImpl) outcome" where
  "locked f d = obind (Lock d) (\<lambda>d. case f d of (r, d) \<Rightarrow> Returns (r, Unlock d))"

definition GetState ::
  "'i env \<Rightarrow> 'i daemonImpl \<Rightarrow> ((error + (string \<times> repository_State) list) \<times> 'i daemonImpl) outcome" where
  "GetState E d = locked (call_States E) d"

definition GetPackage ::
  "'i env \<Rightarrow> string \<Rightarrow> string \<Rightarrow> 'i daemonImpl \<Rightarrow> ((error + Package) \<times> 'i daemonImpl) outcome" where
  "GetPackage E pkg version d =
     locked (\<lambda>d.
       case getPackage (catalog d) pkg version (GOARCH E) (GOOS E) of
         (catalogPackage, ok) \<Rightarrow>
           if \<not> ok
           then (Inl (New (''could not get package '' @ pkg @ '', '' @ version @ '' for ''
                            @ GOARCH E @ '', '' @ GOOS E)), d)
           else (Inr catalogPackage, d)) d"

definition Install :: "'i env \<Rightarrow> string \<Rightarrow> 'i daemonImpl \<Rightarrow> (error option \<times> 'i daemonImpl) outcome" where
  "Install E url d = locked (install E None url) d"

definition StartExperiment ::
  "'i env \<Rightarrow> string \<Rightarrow> 'i daemonImpl \<Rightarrow> (error option \<times> 'i daemonImpl) outcome" where
  "StartExperiment E url d = locked (startExperiment E None url) d"

definition PromoteExperiment ::
  "'i env \<Rightarrow> string \<Rightarrow> 'i daemonImpl \<Rightarrow> (error option \<times> 'i daemonImpl) outcome" where
  "PromoteExperiment E pkg d = locked (promoteExperiment E None pkg) d"

definition StopExperiment ::
  "'i env \<Rightarrow> string \<Rightarrow> 'i daemonImpl \<Rightarrow> (error option \<times> 'i daemonImpl) outcome" where
  "StopExperiment E pkg d = locked (stopExperiment E None pkg) d"

definition handleCatalogUpdate ::
  "catalog \<Rightarrow> 'i daemonImpl \<Rightarrow> (error option \<times> 'i daemonImpl) outcome" where
  "handleCatalogUpdate c d = locked (\<lambda>d. (None, d\<lparr>catalog := c\<rparr>)) d"

text \<open>
  \<^verbatim>\<open>scheduleRemoteAPIRequest\<close> does not take the mutex. It adds one to the wait group and
  then sends on the channel, which has room for 32 requests and blocks the sender when full.
\<close>

definition requests_send :: "remoteAPIRequest \<Rightarrow> 'i daemonImpl \<Rightarrow> 'i daemonImpl outcome" where
  "requests_send request d =
     (if length (requests d) < 32 then Returns (d\<lparr>requests := requests d @ [request]\<rparr>) else Blocks)"

definition scheduleRemoteAPIRequest ::
  "remoteAPIRequest \<Rightarrow> 'i daemonImpl \<Rightarrow> (error option \<times> 'i daemonImpl) outcome" where
  "scheduleRemoteAPIRequest request d =
     obind (requestsWG_Add 1 d) (\<lambda>d.
     obind (requests_send request d) (\<lambda>d.
     Returns (None, d)))"

text \<open>
  \<^verbatim>\<open>handleRemoteAPIRequest\<close>. The deferred calls run last-registered first: the closure
  calling \<^verbatim>\<open>setRequestDone\<close> with the returned error (registered only once the expected
  state has matched), then \<^verbatim>\<open>refreshState\<close>, then \<^verbatim>\<open>requestsWG.Done\<close>, then the unlock.
  The result carries the final request state beside the returned error.
\<close>

definition handleRemoteAPIRequest ::
  "'i env \<Rightarrow> remoteAPIRequest \<Rightarrow> 'i daemonImpl
     \<Rightarrow> (error option \<times> requestState \<times> 'i daemonImpl) outcome" where
  "handleRemoteAPIRequest E request d =
     obind (Lock d) (\<lambda>d.
       let ctx = newRequestContext request;
           d = refreshState E (Some ctx) d;
           (err, ctx, d) =
             (case call_State E (req_Package request) d of
                (Inl e, d) \<Rightarrow> (Some (Wrap ''could not get installer state: '' e), ctx, d)
              | (Inr s, d) \<Rightarrow>
                  if Stable s \<noteq> es_Stable (req_ExpectedState request)
                     \<or> Experiment s \<noteq> es_Experiment (req_ExpectedState request)
                  then
                    let ctx = setRequestInvalid ctx;
                        d = refreshState E (Some ctx) d
                    in (None, ctx, d)
                  else
                    let (err, d) =
                      (if req_Method request = methodStartExperiment then
                         (case json_Unmarshal E (req_Params request) of
                            Inl e \<Rightarrow>
                              (Some (Wrap ''could not unmarshal start experiment params: '' e), d)
                          | Inr params \<Rightarrow>
                              (case getPackage (catalog d) (req_Package request) (tp_Version params)
                                      (GOARCH E) (GOOS E) of
                                 (experimentPackage, ok) \<Rightarrow>
                                   if \<not> ok
                                   then (Some (New (''could not get package '' @ req_Package request
                                                 @ '', '' @ tp_Version params @ '' for ''
                                                 @ GOARCH E @ '', '' @ GOOS E)), d)
                                   else startExperiment E (Some ctx) (URL experimentPackage) d))
                       else if req_Method request = methodStopExperiment then
                         stopExperiment E (Some ctx) (req_Package request) d
                       else if req_Method request = methodPromoteExperiment then
                         promoteExperiment E (Some ctx) (req_Package request) d
                       else (Some (New (''unknown method: '' @ req_Method request)), d))
                    in (err, setRequestDone E ctx err, d));
           d = refreshState E (Some ctx) d
       in obind (requestsWG_Done d) (\<lambda>d. Returns (err, ctx, Unlock d)))"

text \<open>
  \<^verbatim>\<open>Stop\<close> takes the mutex, closes the remote-config client, closes \<^verbatim>\<open>stopChan\<close> (closing a
  closed channel panics) and then waits for the wait group while it still holds the mutex.
  \<open>Stop_enter\<close> is the part before the wait and \<open>Stop_wait\<close> the wait and the return.
\<close>

definition Stop_enter :: "'i daemonImpl \<Rightarrow> 'i daemonImpl outcome" where
  "Stop_enter d =
     obind (Lock d) (\<lambda>d.
       let d = rc_Close d
       in if stopChan d then Panics else Returns (d\<lparr>stopChan := True\<rparr>))"

definition Stop_wait :: "'i daemonImpl \<Rightarrow> (error option \<times> 'i daemonImpl) outcome" where
  "Stop_wait d = obind (requestsWG_Wait d) (\<lambda>d. Returns (None, Unlock d))"

definition Stop :: "'i daemonImpl \<Rightarrow> (error option \<times> 'i daemonImpl) outcome" where
  "Stop d = obind (Stop_enter d) Stop_wait"

subsection \<open>The background loop\<close>

text \<open>
  One turn of the \<^verbatim>\<open>select\<close> in the goroutine that \<^verbatim>\<open>Start\<close> launches, given the case that
  fired. The timer case runs the garbage collector under the mutex and logs its error; the
  stop case is ready once \<^verbatim>\<open>stopChan\<close> is closed and ends the loop; the request case is
  ready when the channel holds a request, takes the oldest one, handles it and logs its
  error. The result says whether the loop goes on.
\<close>

datatype select_case = GcTimer | StopSignal | Request

definition loop_turn :: "'i env \<Rightarrow> select_case \<Rightarrow> 'i daemonImpl \<Rightarrow> (bool \<times> 'i daemonImpl) outcome" where
  "loop_turn E c d =
     (case c of
        GcTimer \<Rightarrow>
          obind (Lock d) (\<lambda>d. case call_GarbageCollect E d of (err, d) \<Rightarrow> Returns (True, Unlock d))
      | StopSignal \<Rightarrow> (if stopChan d then Returns (False, d) else Blocks)
      | Request \<Rightarrow>
          (case requests d of
             [] \<Rightarrow> Blocks
           | request # rest \<Rightarrow>
               obind (handleRemoteAPIRequest E request (d\<lparr>requests := rest\<rparr>))
                 (\<lambda>(err, ctx, d). Returns (True, d))))"

text \<open>
  The loop run over the cases that fire, in order: \<open>Returns (True, d)\<close> when it is back at
  the \<^verbatim>\<open>select\<close> after all of them, \<open>Returns (False, d)\<close> when it has ended.
\<close>

fun loop :: "'i env \<Rightarrow> select_case list \<Rightarrow> 'i daemonImpl \<Rightarrow> (bool \<times> 'i daemonImpl) outcome" where
  "loop E [] d = Returns (True, d)"
| "loop E (c # cs) d =
     obind (loop_turn E c d) (\<lambda>(continue, d). if continue then loop E cs d else Returns (False, d))"

text \<open>
  \<^verbatim>\<open>newDaemon\<close> builds the daemon around an installer and refreshes the state once.
  \<^verbatim>\<open>Start\<close> launches the goroutine that runs \<open>loop\<close> and, when remote updates are enabled,
  starts the remote-config client with the two callbacks.
\<close>

definition newDaemon :: "'i env \<Rightarrow> 'i \<Rightarrow> bool \<Rightarrow> 'i daemonImpl" where
  "newDaemon E i ru =
     refreshState E None
       \<lparr>m = False, stopChan = False, installer = i, remoteUpdates = ru, catalog = Map.empty,
        requests = [], requestsWG = 0, calls = []\<rparr>"

definition Start :: "'i daemonImpl \<Rightarrow> (error option \<times> 'i daemonImpl) outcome" where
  "Start d = locked (\<lambda>d. if \<not> remoteUpdates d then (None, d) else (None, rc_Start d)) d"

subsection \<open>The goroutines together\<close>

text \<open>
  The daemon with its goroutines: the background loop, a caller of \<^verbatim>\<open>Stop\<close>, the
  remote-config callbacks inside \<^verbatim>\<open>scheduleRemoteAPIRequest\<close>, and callers of the local API.
  A goroutine moves when its next operation returns; one that would block does not move.
  Everything done while holding the mutex is one step, except \<^verbatim>\<open>Stop\<close>, which waits while
  it holds the mutex and so takes two. The loop has three positions: at the \<^verbatim>\<open>select\<close>,
  inside the timer case before the mutex is taken, and inside the request case with the
  request it received, before \<^verbatim>\<open>handleRemoteAPIRequest\<close> takes the mutex. \<open>senders\<close> are the
  callbacks that have added to the wait group and have not sent yet.
\<close>

datatype loop_pc = LoopSelect | LoopGC | LoopHandling remoteAPIRequest | LoopEnded

datatype stop_pc = StopNotCalled | StopWaiting | StopReturned

datatype api_call =
    ApiInstall string
  | ApiStartExperiment string
  | ApiPromoteExperiment string
  | ApiStopExperiment string
  | ApiGetPackage string string
  | ApiGetState
  | ApiCatalogUpdate catalog

fun api :: "'i env \<Rightarrow> api_call \<Rightarrow> 'i daemonImpl \<Rightarrow> 'i daemonImpl outcome" where
  "api E (ApiInstall url) d = obind (Install E url d) (\<lambda>(r, d). Returns d)"
| "api E (ApiStartExperiment url) d = obind (StartExperiment E url d) (\<lambda>(r, d). Returns d)"
| "api E (ApiPromoteExperiment pkg) d = obind (PromoteExperiment E pkg d) (\<lambda>(r, d). Returns d)"
| "api E (ApiStopExperiment pkg) d = obind (StopExperiment E pkg d) (\<lambda>(r, d). Returns d)"
| "api E (ApiGetPackage pkg version) d = obind (GetPackage E pkg version d) (\<lambda>(r, d). Returns d)"
| "api E ApiGetState d = obind (GetState E d) (\<lambda>(r, d). Returns d)"
| "api E (ApiCatalogUpdate c) d = obind (handleCatalogUpdate c d) (\<lambda>(r, d). Returns d)"

record 'i system =
  dm :: "'i daemonImpl"
  loop_at :: loop_pc
  stop_at :: stop_pc
  senders :: "remoteAPIRequest list"

inductive step :: "'i env \<Rightarrow> 'i system \<Rightarrow> 'i system \<Rightarrow> bool" for E :: "'i env" where
  stop_enter:
    "stop_at s = StopNotCalled \<Longrightarrow> Stop_enter (dm s) = Returns d'
     \<Longrightarrow> step E s (s\<lparr>dm := d', stop_at := StopWaiting\<rparr>)"
| stop_return:
    "stop_at s = StopWaiting \<Longrightarrow> Stop_wait (dm s) = Returns (err, d')
     \<Longrightarrow> step E s (s\<lparr>dm := d', stop_at := StopReturned\<rparr>)"
| loop_timer:
    "loop_at s = LoopSelect \<Longrightarrow> step E s (s\<lparr>loop_at := LoopGC\<rparr>)"
| loop_gc:
    "loop_at s = LoopGC \<Longrightarrow> loop_turn E GcTimer (dm s) = Returns (c, d')
     \<Longrightarrow> step E s (s\<lparr>dm := d', loop_at := LoopSelect\<rparr>)"
| loop_stop:
    "loop_at s = LoopSelect \<Longrightarrow> stopChan (dm s) \<Longrightarrow> step E s (s\<lparr>loop_at := LoopEnded\<rparr>)"
| loop_receive:
    "loop_at s = LoopSelect \<Longrightarrow> requests (dm s) = request # rest
     \<Longrightarrow> step E s (s\<lparr>dm := (dm s)\<lparr>requests := rest\<rparr>, loop_at := LoopHandling request\<rparr>)"
| loop_handle:
    "loop_at s = LoopHandling request
     \<Longrightarrow> handleRemoteAPIRequest E request (dm s) = Returns (err, ctx, d')
     \<Longrightarrow> step E s (s\<lparr>dm := d', loop_at := LoopSelect\<rparr>)"
| schedule_add:
    "requestsWG_Add 1 (dm s) = Returns d'
     \<Longrightarrow> step E s (s\<lparr>dm := d', senders := senders s @ [request]\<rparr>)"
| schedule_send:
    "senders s = before @ request # after \<Longrightarrow> requests_send request (dm s) = Returns d'
     \<Longrightarrow> step E s (s\<lparr>dm := d', senders := before @ after\<rparr>)"
| local_call:
    "api E c (dm s) = Returns d' \<Longrightarrow> step E s (s\<lparr>dm := d'\<rparr>)"

subsection \<open>Reading results\<close>

text \<open>
  \<open>returned\<close> reads the value of a call that returned. \<open>reported_state\<close> is what
  \<^verbatim>\<open>d.installer.State(request.Package)\<close> answers inside \<^verbatim>\<open>handleRemoteAPIRequest\<close> started
  on \<open>d\<close>: the installer has answered the \<^verbatim>\<open>States()\<close> of the first refresh before.
  \<open>refresh_calls\<close> are the calls one \<^verbatim>\<open>refreshState\<close> makes when the installer is in state
  \<open>i\<close>.
\<close>

definition returned :: "'a outcome \<Rightarrow> 'a option" where
  "returned x = (case x of Returns a \<Rightarrow> Some a | Blocks \<Rightarrow> None | Panics \<Rightarrow> None)"

definition reported_state :: "'i env \<Rightarrow> remoteAPIRequest \<Rightarrow> 'i daemonImpl \<Rightarrow> error + repository_State" where
  "reported_state E request d =
     fst (inst_State E (req_Package request) (snd (inst_States E (installer d))))"

definition refresh_calls :: "'i env \<Rightarrow> requestState option \<Rightarrow> 'i \<Rightarrow> call list" where
  "refresh_calls E ctx i =
     (case fst (inst_States E i) of
        Inl err \<Rightarrow> [CStates (Inl err)]
      | Inr state \<Rightarrow> [CStates (Inr state), CSetState (map (packageState ctx) state)])"

text \<open>
  \<open>refreshed_last l\<close>: the last installer call in \<open>l\<close> is a \<^verbatim>\<open>States()\<close> query.
\<close>

fun is_States :: "call \<Rightarrow> bool" where
  "is_States (CStates _) = True"
| "is_States _ = False"

fun refreshed_last :: "call list \<Rightarrow> bool" where
  "refreshed_last [] = False"
| "refreshed_last (c # cs) = (refreshed_last cs \<or> (is_States c \<and> filter is_installer_call cs = []))"

subsection \<open>A concrete installer\<close>

text \<open>
  An installer that keeps the versions of each package in an association list, for running
  the daemon on concrete inputs. It fails on the URL \<open>''bad''\<close> and on packages it does not
  know; the payload of a request is the version itself and the empty payload does not
  decode. \<open>brokenEnv\<close> is the same installer with a \<^verbatim>\<open>States()\<close> that always fails.
\<close>

fun error_message :: "error \<Rightarrow> string" where
  "error_message (New s) = s"
| "error_message (Wrap p e) = p @ error_message e"

definition set_versions ::
  "string \<Rightarrow> (repository_State \<Rightarrow> repository_State) \<Rightarrow> (string \<times> repository_State) list
     \<Rightarrow> error option \<times> (string \<times> repository_State) list" where
  "set_versions pkg f i =
     (case map_of i pkg of
        None \<Rightarrow> (Some (New ''unknown package''), i)
      | Some s \<Rightarrow> (None, map (\<lambda>(k, s). if k = pkg then (k, f s) else (k, s)) i))"

definition testEnv :: "(string \<times> repository_State) list env" where
  "testEnv =
     \<lparr>inst_Install = (\<lambda>url i.
        if url = ''bad'' then (Some (New ''download failed''), i)
        else set_versions ''agent'' (\<lambda>s. s\<lparr>Stable := url\<rparr>) i),
      inst_InstallExperiment = (\<lambda>url i.
        if url = ''bad'' then (Some (New ''download failed''), i)
        else set_versions ''agent'' (\<lambda>s. s\<lparr>Experiment := url\<rparr>) i),
      inst_PromoteExperiment = (\<lambda>pkg i.
        set_versions pkg (\<lambda>s. \<lparr>Stable = Experiment s, Experiment = []\<rparr>) i),
      inst_RemoveExperiment = (\<lambda>pkg i. set_versions pkg (\<lambda>s. s\<lparr>Experiment := []\<rparr>) i),
      inst_State = (\<lambda>pkg i.
        case map_of i pkg of
          None \<Rightarrow> (Inl (New ''unknown package''), i)
        | Some s \<Rightarrow> (Inr s, i)),
      inst_States = (\<lambda>i. (Inr i, i)),
      inst_GarbageCollect = (\<lambda>i. (None, i)),
      GOARCH = ''amd64'',
      GOOS = ''linux'',
      json_Unmarshal = (\<lambda>p. if p = [] then Inl (New ''unexpected end of JSON input'')
                             else Inr \<lparr>tp_Version = p\<rparr>),
      From = (\<lambda>e. \<lparr>ie_Code = 0, ie_Error = error_message e\<rparr>)\<rparr>"

definition brokenEnv :: "(string \<times> repository_State) list env" where
  "brokenEnv = testEnv\<lparr>inst_States := (\<lambda>i. (Inl (New ''installer unreachable''), i))\<rparr>"

definition agent2 :: Package where
  "agent2 = \<lparr>Name = ''agent'', Version = ''2.0'', Platform = ''linux'', Arch = ''amd64'', URL = ''u2''\<rparr>"

definition agent3 :: Package where
  "agent3 = \<lparr>Name = ''agent'', Version = ''3.0'', Platform = ''linux'', Arch = ''amd64'', URL = ''bad''\<rparr>"

definition testCatalog :: catalog where
  "testCatalog =
     [(''agent'', ''2.0'', ''linux'', ''amd64'') \<mapsto> agent2,
      (''agent'', ''3.0'', ''linux'', ''amd64'') \<mapsto> agent3]"

definition testDaemon :: "string \<Rightarrow> string \<Rightarrow> (string \<times> repository_State) list daemonImpl" where
  "testDaemon sv ev =
     \<lparr>m = False, stopChan = False,
      installer = [(''agent'', \<lparr>Stable = sv, Experiment = ev\<rparr>)],
      remoteUpdates = True, catalog = testCatalog, requests = [], requestsWG = 1, calls = []\<rparr>"

definition testRequest :: "string \<Rightarrow> string \<Rightarrow> string \<Rightarrow> string \<Rightarrow> remoteAPIRequest" where
  "testRequest method params sv ev =
     \<lparr>req_ID = ''id1'', req_Package = ''agent'', req_TraceID = [], req_ParentSpanID = [],
      req_ExpectedState = \<lparr>es_Stable = sv, es_Experiment = ev\<rparr>,
      req_Method = method, req_Params = params\<rparr>"

section \<open>Basic facts\<close>

lemma obind_Returns [simp]: "obind (Returns a) f = f a"
  by (simp add: obind_def)

lemma obind_Blocks [simp]: "obind Blocks f = Blocks"
  by (simp add: obind_def)

lemma obind_Panics [simp]: "obind Panics f = Panics"
  by (simp add: obind_def)

lemma Lock_free [simp]: "\<not> m d \<Longrightarrow> Lock d = Returns (d\<lparr>m := True\<rparr>)"
  by (simp add: Lock_def)

lemma Lock_held [simp]: "m d \<Longrightarrow> Lock d = Blocks"
  by (simp add: Lock_def)

lemma locked_free:
  "\<not> m d \<Longrightarrow> locked f d = Returns (fst (f (d\<lparr>m := True\<rparr>)), Unlock (snd (f (d\<lparr>m := True\<rparr>))))"
  by (simp add: locked_def case_prod_unfold)

lemma locked_held: "m d \<Longrightarrow> locked f d = Blocks"
  by (simp add: locked_def)

lemma wrap_simps [simp]: "wrap p None = None" "wrap p (Some e) = Some (Wrap p e)"
  by (simp_all add: wrap_def)

lemma wrap_map_option: "wrap p err = map_option (Wrap p) err"
  by (cases err) simp_all

subsection \<open>What a refresh does\<close>

lemma refreshState_fields [simp]:
  "m (refreshState E ctx d) = m d"
  "stopChan (refreshState E ctx d) = stopChan d"
  "remoteUpdates (refreshState E ctx d) = remoteUpdates d"
  "catalog (refreshState E ctx d) = catalog d"
  "requests (refreshState E ctx d) = requests d"
  "requestsWG (refreshState E ctx d) = requestsWG d"
  by (simp_all add: refreshState_def call_States_def rc_SetState_def split: prod.splits sum.splits)

lemma refreshState_installer [simp]:
  "installer (refreshState E ctx d) = snd (inst_States E (installer d))"
  by (simp add: refreshState_def call_States_def rc_SetState_def split: prod.splits sum.splits)

lemma refreshState_calls [simp]:
  "calls (refreshState E ctx d) = calls d @ refresh_calls E ctx (installer d)"
  by (simp add: refreshState_def call_States_def rc_SetState_def refresh_calls_def
      split: prod.splits sum.splits)

lemma refresh_calls_mutating [simp]: "filter is_mutating (refresh_calls E ctx i) = []"
  by (simp add: refresh_calls_def split: sum.splits)

lemma refresh_calls_installer [simp]:
  "filter is_installer_call (refresh_calls E ctx i) = [CStates (fst (inst_States E i))]"
  by (simp add: refresh_calls_def split: sum.splits)

lemma refresh_calls_shape:
  "\<exists>post. refresh_calls E ctx i = CStates (fst (inst_States E i)) # post
          \<and> filter is_installer_call post = []"
  by (simp add: refresh_calls_def split: sum.splits)

lemma refreshed_last_append [simp]: "refreshed_last ys \<Longrightarrow> refreshed_last (xs @ ys)"
  by (induction xs) simp_all

lemma refreshed_last_refresh [simp]: "refreshed_last (refresh_calls E ctx i)"
  by (simp add: refresh_calls_def split: sum.splits)

lemma refreshed_last_split:
  "refreshed_last l
   \<Longrightarrow> \<exists>mid r post. l = mid @ CStates r # post \<and> filter is_installer_call post = []"
proof (induction l)
  case Nil
  then show ?case by simp
next
  case (Cons c cs)
  show ?case
  proof (cases "refreshed_last cs")
    case True
    with Cons.IH obtain mid r post where "cs = mid @ CStates r # post"
      and "filter is_installer_call post = []" by blast
    then have "c # cs = (c # mid) @ CStates r # post \<and> filter is_installer_call post = []"
      by simp
    then show ?thesis by blast
  next
    case False
    with Cons.prems have s: "is_States c" and f: "filter is_installer_call cs = []" by simp_all
    from s obtain r where "c = CStates r" by (cases c) simp_all
    with f have "c # cs = [] @ CStates r # cs \<and> filter is_installer_call cs = []" by simp
    then show ?thesis by blast
  qed
qed

subsection \<open>The four operations under the lock\<close>

lemma install_fst:
  "fst (install E ctx url d)
   = wrap ''could not install: '' (fst (inst_Install E url (snd (inst_States E (installer d)))))"
  by (simp add: install_def call_Install_def Let_def case_prod_unfold)

lemma install_calls:
  "calls (snd (install E ctx url d))
   = calls d @ refresh_calls E ctx (installer d)
       @ CInstall url (fst (inst_Install E url (snd (inst_States E (installer d)))))
       # refresh_calls E ctx (snd (inst_Install E url (snd (inst_States E (installer d)))))"
  by (simp add: install_def call_Install_def Let_def case_prod_unfold)

lemma install_fields:
  "m (snd (install E ctx url d)) = m d"
  "stopChan (snd (install E ctx url d)) = stopChan d"
  "remoteUpdates (snd (install E ctx url d)) = remoteUpdates d"
  "catalog (snd (install E ctx url d)) = catalog d"
  "requests (snd (install E ctx url d)) = requests d"
  "requestsWG (snd (install E ctx url d)) = requestsWG d"
  by (simp_all add: install_def call_Install_def Let_def case_prod_unfold)

lemma startExperiment_fst:
  "fst (startExperiment E ctx url d)
   = wrap ''could not install experiment: ''
       (fst (inst_InstallExperiment E url (snd (inst_States E (installer d)))))"
  by (simp add: startExperiment_def call_InstallExperiment_def Let_def case_prod_unfold)

lemma startExperiment_calls:
  "calls (snd (startExperiment E ctx url d))
   = calls d @ refresh_calls E ctx (installer d)
       @ CInstallExperiment url
           (fst (inst_InstallExperiment E url (snd (inst_States E (installer d)))))
       # refresh_calls E ctx
           (snd (inst_InstallExperiment E url (snd (inst_States E (installer d)))))"
  by (simp add: startExperiment_def call_InstallExperiment_def Let_def case_prod_unfold)

lemma startExperiment_fields:
  "m (snd (startExperiment E ctx url d)) = m d"
  "stopChan (snd (startExperiment E ctx url d)) = stopChan d"
  "remoteUpdates (snd (startExperiment E ctx url d)) = remoteUpdates d"
  "catalog (snd (startExperiment E ctx url d)) = catalog d"
  "requests (snd (startExperiment E ctx url d)) = requests d"
  "requestsWG (snd (startExperiment E ctx url d)) = requestsWG d"
  by (simp_all add: startExperiment_def call_InstallExperiment_def Let_def case_prod_unfold)

lemma promoteExperiment_fst:
  "fst (promoteExperiment E ctx pkg d)
   = wrap ''could not promote experiment: ''
       (fst (inst_PromoteExperiment E pkg (snd (inst_States E (installer d)))))"
  by (simp add: promoteExperiment_def call_PromoteExperiment_def Let_def case_prod_unfold)

lemma promoteExperiment_calls:
  "calls (snd (promoteExperiment E ctx pkg d))
   = calls d @ refresh_calls E ctx (installer d)
       @ CPromoteExperiment pkg
           (fst (inst_PromoteExperiment E pkg (snd (inst_States E (installer d)))))
       # refresh_calls E ctx
           (snd (inst_PromoteExperiment E pkg (snd (inst_States E (installer d)))))"
  by (simp add: promoteExperiment_def call_PromoteExperiment_def Let_def case_prod_unfold)

lemma promoteExperiment_fields:
  "m (snd (promoteExperiment E ctx pkg d)) = m d"
  "stopChan (snd (promoteExperiment E ctx pkg d)) = stopChan d"
  "remoteUpdates (snd (promoteExperiment E ctx pkg d)) = remoteUpdates d"
  "catalog (snd (promoteExperiment E ctx pkg d)) = catalog d"
  "requests (snd (promoteExperiment E ctx pkg d)) = requests d"
  "requestsWG (snd (promoteExperiment E ctx pkg d)) = requestsWG d"
  by (simp_all add: promoteExperiment_def call_PromoteExperiment_def Let_def case_prod_unfold)

lemma stopExperiment_fst:
  "fst (stopExperiment E ctx pkg d)
   = wrap ''could not stop experiment: ''
       (fst (inst_RemoveExperiment E pkg (snd (inst_States E (installer d)))))"
  by (simp add: stopExperiment_def call_RemoveExperiment_def Let_def case_prod_unfold)

lemma stopExperiment_calls:
  "calls (snd (stopExperiment E ctx pkg d))
   = calls d @ refresh_calls E ctx (installer d)
       @ CRemoveExperiment pkg
           (fst (inst_RemoveExperiment E pkg (snd (inst_States E (installer d)))))
       # refresh_calls E ctx
           (snd (inst_RemoveExperiment E pkg (snd (inst_States E (installer d)))))"
  by (simp add: stopExperiment_def call_RemoveExperiment_def Let_def case_prod_unfold)

lemma stopExperiment_fields:
  "m (snd (stopExperiment E ctx pkg d)) = m d"
  "stopChan (snd (stopExperiment E ctx pkg d)) = stopChan d"
  "remoteUpdates (snd (stopExperiment E ctx pkg d)) = remoteUpdates d"
  "catalog (snd (stopExperiment E ctx pkg d)) = catalog d"
  "requests (snd (stopExperiment E ctx pkg d)) = requests d"
  "requestsWG (snd (stopExperiment E ctx pkg d)) = requestsWG d"
  by (simp_all add: stopExperiment_def call_RemoveExperiment_def Let_def case_prod_unfold)

lemmas op_simps =
  install_fst install_calls install_fields
  startExperiment_fst startExperiment_calls startExperiment_fields
  promoteExperiment_fst promoteExperiment_calls promoteExperiment_fields
  stopExperiment_fst stopExperiment_calls stopExperiment_fields

lemmas handle_defs =
  handleRemoteAPIRequest_def call_State_def Let_def case_prod_unfold requestsWG_Done_def
  requestsWG_Add_def Unlock_def newRequestContext_def setRequestInvalid_def setRequestDone_def
  reported_state_def

lemmas test_defs =
  testEnv_def testDaemon_def testRequest_def testCatalog_def agent2_def agent3_def
  set_versions_def methodStartExperiment_def methodStopExperiment_def
  methodPromoteExperiment_def getPackage_def

lemma Install_calls:
  assumes "\<not> m d"
  shows "\<exists>res r1 r2 delta d'.
           Install E url d = Returns (map_option (Wrap ''could not install: '') res, d')
           \<and> res = fst (inst_Install E url (snd (inst_States E (installer d))))
           \<and> calls d' = calls d @ delta
           \<and> filter is_installer_call delta = [CStates r1, CInstall url res, CStates r2]"
  using assms by (simp add: Install_def locked_free op_simps Unlock_def wrap_map_option)

lemma StartExperiment_calls:
  assumes "\<not> m d"
  shows "\<exists>res r1 r2 delta d'.
           StartExperiment E url d
             = Returns (map_option (Wrap ''could not install experiment: '') res, d')
           \<and> calls d' = calls d @ delta
           \<and> filter is_installer_call delta = [CStates r1, CInstallExperiment url res, CStates r2]"
  using assms by (simp add: StartExperiment_def locked_free op_simps Unlock_def wrap_map_option)

lemma PromoteExperiment_calls:
  assumes "\<not> m d"
  shows "\<exists>res r1 r2 delta d'.
           PromoteExperiment E pkg d
             = Returns (map_option (Wrap ''could not promote experiment: '') res, d')
           \<and> calls d' = calls d @ delta
           \<and> filter is_installer_call delta = [CStates r1, CPromoteExperiment pkg res, CStates r2]"
  using assms by (simp add: PromoteExperiment_def locked_free op_simps Unlock_def wrap_map_option)

lemma StopExperiment_calls:
  assumes "\<not> m d"
  shows "\<exists>res r1 r2 delta d'.
           StopExperiment E pkg d
             = Returns (map_option (Wrap ''could not stop experiment: '') res, d')
           \<and> calls d' = calls d @ delta
           \<and> filter is_installer_call delta = [CStates r1, CRemoveExperiment pkg res, CStates r2]"
  using assms by (simp add: StopExperiment_def locked_free op_simps Unlock_def wrap_map_option)

subsection \<open>A handled request begins and ends with a refresh\<close>

lemma handle_refreshes:
  assumes "\<not> m d" and "0 < requestsWG d"
  shows "\<exists>err ctx d' rest.
           handleRemoteAPIRequest E request d = Returns (err, ctx, d')
           \<and> calls d'
               = calls d @ refresh_calls E (Some (newRequestContext request)) (installer d) @ rest
           \<and> refreshed_last rest"
  using assms
  by (auto simp add: handle_defs op_simps split: sum.splits)

lemma handle_bracketed:
  assumes "\<not> m d" and "0 < requestsWG d"
  shows "\<exists>err ctx d' r1 mid r2 post.
           handleRemoteAPIRequest E request d = Returns (err, ctx, d')
           \<and> calls d' = calls d @ CStates r1 # mid @ CStates r2 # post
           \<and> filter is_installer_call post = []"
proof -
  from handle_refreshes [OF assms, of E request]
  obtain err ctx d' rest where h: "handleRemoteAPIRequest E request d = Returns (err, ctx, d')"
    and c: "calls d'
              = calls d @ refresh_calls E (Some (newRequestContext request)) (installer d) @ rest"
    and r: "refreshed_last rest"
    by blast
  obtain post1 where p1: "refresh_calls E (Some (newRequestContext request)) (installer d)
      = CStates (fst (inst_States E (installer d))) # post1"
    using refresh_calls_shape [of E "Some (newRequestContext request)" "installer d"] by blast
  from refreshed_last_split [OF r] obtain mid r2 post where p2: "rest = mid @ CStates r2 # post"
    and f2: "filter is_installer_call post = []"
    by blast
  have "calls d' = calls d @ CStates (fst (inst_States E (installer d))) # (post1 @ mid)
          @ CStates r2 # post"
    using c p1 p2 by simp
  with h f2 show ?thesis by blast
qed

section \<open>The claims\<close>

subsection \<open>C5: a failed state query\<close>

text \<open>
  Claim C5. When the installer's \<^verbatim>\<open>States()\<close> returns an error, \<^verbatim>\<open>refreshState\<close> returns
  without calling \<^verbatim>\<open>SetState\<close> on the remote-config client and without changing the
  daemon: the one call it has made is the failed \<^verbatim>\<open>States()\<close>, and the mutex, the stop
  channel, the catalog, the request channel, the wait group and the remote-updates flag are
  as before (the installer's own state is whatever the query left). \<^verbatim>\<open>refreshState\<close> has no
  error result, so the error goes to no caller.
\<close>

theorem refreshState_States_error:
  assumes "fst (inst_States E (installer d)) = Inl e"
  shows "refreshState E ctx d
         = d\<lparr>installer := snd (inst_States E (installer d)),
              calls := calls d @ [CStates (Inl e)]\<rparr>"
  using assms by (cases "inst_States E (installer d)") (simp add: refreshState_def call_States_def)

theorem refreshState_States_error_witness:
  "fst (inst_States brokenEnv (installer (testDaemon ''1.0'' [])))
     = Inl (New ''installer unreachable'')
   \<and> refreshState brokenEnv None (testDaemon ''1.0'' [])
       = (testDaemon ''1.0'' [])\<lparr>calls := [CStates (Inl (New ''installer unreachable''))]\<rparr>"
proof -
  have h: "fst (inst_States brokenEnv (installer (testDaemon ''1.0'' [])))
             = Inl (New ''installer unreachable'')"
    by (simp add: brokenEnv_def)
  from refreshState_States_error [OF h, of None] h show ?thesis
    by (simp add: brokenEnv_def testDaemon_def)
qed

subsection \<open>C6: a catalog update\<close>

text \<open>
  Claim C6. \<^verbatim>\<open>handleCatalogUpdate(c)\<close> makes \<open>c\<close> the daemon's catalog, whatever the catalog
  was before, returns nil, and leaves every other field of the daemon as it was. (With the
  mutex held by someone else it waits and does nothing.)
\<close>

theorem handleCatalogUpdate_replaces_catalog:
  "handleCatalogUpdate c d = (if m d then Blocks else Returns (None, d\<lparr>catalog := c\<rparr>))"
  by (simp add: handleCatalogUpdate_def locked_free locked_held Unlock_def)

theorem handleCatalogUpdate_replaces_catalog_witness:
  "handleCatalogUpdate Map.empty (testDaemon ''1.0'' [])
     = Returns (None, (testDaemon ''1.0'' [])\<lparr>catalog := Map.empty\<rparr>)
   \<and> catalog ((testDaemon ''1.0'' [])\<lparr>catalog := Map.empty\<rparr>)
        (''agent'', ''2.0'', ''linux'', ''amd64'') = None"
  using handleCatalogUpdate_replaces_catalog [of Map.empty "testDaemon ''1.0'' []"]
  by (simp add: testDaemon_def)

subsection \<open>C7: looking a package up\<close>

text \<open>
  Claim C7. \<^verbatim>\<open>GetPackage(name, version)\<close> returns what the catalog lookup for the name, the
  version and the current architecture and OS finds: the package when the lookup reports
  found, an error when and only when it reports not found. The daemon (catalog, installer and
  every other field) is the same afterwards.
\<close>

theorem GetPackage_lookup:
  assumes "\<not> m d"
  shows "GetPackage E pkg version d
         = Returns
             (case getPackage (catalog d) pkg version (GOARCH E) (GOOS E) of
                (p, found) \<Rightarrow>
                  if found then Inr p
                  else Inl (New (''could not get package '' @ pkg @ '', '' @ version @ '' for ''
                                 @ GOARCH E @ '', '' @ GOOS E)),
              d)"
proof -
  have "d\<lparr>m := True, m := False\<rparr> = d"
    using assms by simp
  then show ?thesis
    using assms by (simp add: GetPackage_def locked_free Unlock_def case_prod_unfold)
qed

theorem GetPackage_lookup_witness:
  "\<not> m (testDaemon ''1.0'' [])
   \<and> GetPackage testEnv ''agent'' ''2.0'' (testDaemon ''1.0'' [])
       = Returns (Inr agent2, testDaemon ''1.0'' [])
   \<and> GetPackage testEnv ''agent'' ''9.9'' (testDaemon ''1.0'' [])
       = Returns (Inl (New ''could not get package agent, 9.9 for amd64, linux''),
                  testDaemon ''1.0'' [])"
proof -
  have h: "\<not> m (testDaemon ''1.0'' [])"
    by (simp add: testDaemon_def)
  have c2: "catalog (testDaemon ''1.0'' []) (''agent'', ''2.0'', ''linux'', ''amd64'') = Some agent2"
    by (simp add: testDaemon_def testCatalog_def)
  have c9: "catalog (testDaemon ''1.0'' []) (''agent'', ''9.9'', ''linux'', ''amd64'') = None"
    by (simp add: testDaemon_def testCatalog_def)
  from GetPackage_lookup [OF h, of testEnv "''agent''" "''2.0''"]
    GetPackage_lookup [OF h, of testEnv "''agent''" "''9.9''"] h c2 c9
  show ?thesis
    by (simp add: testEnv_def getPackage_def)
qed

subsection \<open>C9: a local install\<close>

text \<open>
  Claim C9. A local \<^verbatim>\<open>Install(ctx, url)\<close> checks no expected state: whatever the installer
  holds, the installer calls it makes are the \<^verbatim>\<open>States()\<close> of the first refresh, \<^verbatim>\<open>Install\<close>
  with the given URL, and the \<^verbatim>\<open>States()\<close> of the last refresh, and \<^verbatim>\<open>State(pkg)\<close> is never
  asked. It returns nil when the installer's \<^verbatim>\<open>Install\<close> returned nil, and the installer's
  error behind the prefix \<open>could not install: \<close> otherwise.
\<close>

theorem Install_unconditional:
  assumes "\<not> m d"
  shows "\<exists>res r1 r2 delta d'.
           Install E url d = Returns (map_option (Wrap ''could not install: '') res, d')
           \<and> res = fst (inst_Install E url (snd (inst_States E (installer d))))
           \<and> calls d' = calls d @ delta
           \<and> filter is_installer_call delta = [CStates r1, CInstall url res, CStates r2]"
  using Install_calls [OF assms] .

theorem Install_unconditional_witness:
  "\<not> m (testDaemon ''1.0'' ''2.0'')
   \<and> (\<exists>r1 r2 delta d'.
         Install testEnv ''u3'' (testDaemon ''1.0'' ''2.0'') = Returns (None, d')
         \<and> calls d' = calls (testDaemon ''1.0'' ''2.0'') @ delta
         \<and> filter is_installer_call delta = [CStates r1, CInstall ''u3'' None, CStates r2])
   \<and> (\<exists>r1 r2 delta d'.
         Install testEnv ''bad'' (testDaemon ''1.0'' ''2.0'')
           = Returns (Some (Wrap ''could not install: '' (New ''download failed'')), d')
         \<and> calls d' = calls (testDaemon ''1.0'' ''2.0'') @ delta
         \<and> filter is_installer_call delta
             = [CStates r1, CInstall ''bad'' (Some (New ''download failed'')), CStates r2])"
proof -
  have h: "\<not> m (testDaemon ''1.0'' ''2.0'')"
    by (simp add: testDaemon_def)
  have ok: "fst (inst_Install testEnv ''u3''
                  (snd (inst_States testEnv (installer (testDaemon ''1.0'' ''2.0''))))) = None"
    by (simp add: test_defs)
  have bad: "fst (inst_Install testEnv ''bad''
                   (snd (inst_States testEnv (installer (testDaemon ''1.0'' ''2.0'')))))
             = Some (New ''download failed'')"
    by (simp add: test_defs)
  from Install_unconditional [OF h, of testEnv "''u3''"] ok
  have a: "\<exists>r1 r2 delta d'.
         Install testEnv ''u3'' (testDaemon ''1.0'' ''2.0'') = Returns (None, d')
         \<and> calls d' = calls (testDaemon ''1.0'' ''2.0'') @ delta
         \<and> filter is_installer_call delta = [CStates r1, CInstall ''u3'' None, CStates r2]"
    by auto
  from Install_unconditional [OF h, of testEnv "''bad''"] bad
  have b: "\<exists>r1 r2 delta d'.
         Install testEnv ''bad'' (testDaemon ''1.0'' ''2.0'')
           = Returns (Some (Wrap ''could not install: '' (New ''download failed'')), d')
         \<and> calls d' = calls (testDaemon ''1.0'' ''2.0'') @ delta
         \<and> filter is_installer_call delta
             = [CStates r1, CInstall ''bad'' (Some (New ''download failed'')), CStates r2]"
    by auto
  from h a b show ?thesis by (intro conjI)
qed

subsection \<open>C3: refreshes around every mutating operation\<close>

text \<open>
  Claim C3. Each of \<^verbatim>\<open>Install\<close>, \<^verbatim>\<open>StartExperiment\<close>, \<^verbatim>\<open>PromoteExperiment\<close> and
  \<^verbatim>\<open>StopExperiment\<close> refreshes the state before and after its installer call, whatever that
  call returns: \<^verbatim>\<open>refreshState\<close> begins with the \<^verbatim>\<open>States()\<close> query and nothing else asks
  it here, and the installer calls of the operation are \<^verbatim>\<open>States()\<close>, the operation's call,
  \<^verbatim>\<open>States()\<close>. Every handled remote request begins with the \<^verbatim>\<open>States()\<close> of a refresh, and
  a later \<^verbatim>\<open>States()\<close> of a refresh comes after every other installer call of the request.
\<close>

theorem refreshState_around_operations:
  assumes "\<not> m d"
  shows "(\<exists>err d' res r1 r2 delta.
            Install E url d = Returns (err, d') \<and> calls d' = calls d @ delta
            \<and> filter is_installer_call delta = [CStates r1, CInstall url res, CStates r2])
       \<and> (\<exists>err d' res r1 r2 delta.
            StartExperiment E url d = Returns (err, d') \<and> calls d' = calls d @ delta
            \<and> filter is_installer_call delta
                = [CStates r1, CInstallExperiment url res, CStates r2])
       \<and> (\<exists>err d' res r1 r2 delta.
            PromoteExperiment E pkg d = Returns (err, d') \<and> calls d' = calls d @ delta
            \<and> filter is_installer_call delta
                = [CStates r1, CPromoteExperiment pkg res, CStates r2])
       \<and> (\<exists>err d' res r1 r2 delta.
            StopExperiment E pkg d = Returns (err, d') \<and> calls d' = calls d @ delta
            \<and> filter is_installer_call delta
                = [CStates r1, CRemoveExperiment pkg res, CStates r2])
       \<and> (0 < requestsWG d \<longrightarrow>
            (\<exists>err ctx d' r1 mid r2 post.
               handleRemoteAPIRequest E request d = Returns (err, ctx, d')
               \<and> calls d' = calls d @ CStates r1 # mid @ CStates r2 # post
               \<and> filter is_installer_call post = []))"
proof (intro conjI impI)
  show "\<exists>err d' res r1 r2 delta.
            Install E url d = Returns (err, d') \<and> calls d' = calls d @ delta
            \<and> filter is_installer_call delta = [CStates r1, CInstall url res, CStates r2]"
    using Install_calls [OF assms, of E url] by blast
  show "\<exists>err d' res r1 r2 delta.
            StartExperiment E url d = Returns (err, d') \<and> calls d' = calls d @ delta
            \<and> filter is_installer_call delta
                = [CStates r1, CInstallExperiment url res, CStates r2]"
    using StartExperiment_calls [OF assms, of E url] by blast
  show "\<exists>err d' res r1 r2 delta.
            PromoteExperiment E pkg d = Returns (err, d') \<and> calls d' = calls d @ delta
            \<and> filter is_installer_call delta
                = [CStates r1, CPromoteExperiment pkg res, CStates r2]"
    using PromoteExperiment_calls [OF assms, of E pkg] by blast
  show "\<exists>err d' res r1 r2 delta.
            StopExperiment E pkg d = Returns (err, d') \<and> calls d' = calls d @ delta
            \<and> filter is_installer_call delta
                = [CStates r1, CRemoveExperiment pkg res, CStates r2]"
    using StopExperiment_calls [OF assms, of E pkg] by blast
  assume "0 < requestsWG d"
  then show "\<exists>err ctx d' r1 mid r2 post.
               handleRemoteAPIRequest E request d = Returns (err, ctx, d')
               \<and> calls d' = calls d @ CStates r1 # mid @ CStates r2 # post
               \<and> filter is_installer_call post = []"
    using handle_bracketed [OF assms] by blast
qed

theorem refreshState_around_operations_witness:
  "\<not> m (testDaemon ''1.0'' ''2.0'')
   \<and> 0 < requestsWG (testDaemon ''1.0'' ''2.0'')
   \<and> (\<exists>err d' res r1 r2 delta.
        Install testEnv ''bad'' (testDaemon ''1.0'' ''2.0'') = Returns (err, d')
        \<and> calls d' = calls (testDaemon ''1.0'' ''2.0'') @ delta
        \<and> filter is_installer_call delta = [CStates r1, CInstall ''bad'' res, CStates r2])
   \<and> (\<exists>err d' res r1 r2 delta.
        StartExperiment testEnv ''bad'' (testDaemon ''1.0'' ''2.0'') = Returns (err, d')
        \<and> calls d' = calls (testDaemon ''1.0'' ''2.0'') @ delta
        \<and> filter is_installer_call delta = [CStates r1, CInstallExperiment ''bad'' res, CStates r2])
   \<and> (\<exists>err d' res r1 r2 delta.
        PromoteExperiment testEnv ''agent'' (testDaemon ''1.0'' ''2.0'') = Returns (err, d')
        \<and> calls d' = calls (testDaemon ''1.0'' ''2.0'') @ delta
        \<and> filter is_installer_call delta = [CStates r1, CPromoteExperiment ''agent'' res, CStates r2])
   \<and> (\<exists>err d' res r1 r2 delta.
        StopExperiment testEnv ''agent'' (testDaemon ''1.0'' ''2.0'') = Returns (err, d')
        \<and> calls d' = calls (testDaemon ''1.0'' ''2.0'') @ delta
        \<and> filter is_installer_call delta = [CStates r1, CRemoveExperiment ''agent'' res, CStates r2])
   \<and> (\<exists>err ctx d' r1 mid r2 post.
        handleRemoteAPIRequest testEnv (testRequest methodStopExperiment [] ''1.0'' ''2.0'')
          (testDaemon ''1.0'' ''2.0'') = Returns (err, ctx, d')
        \<and> calls d' = calls (testDaemon ''1.0'' ''2.0'') @ CStates r1 # mid @ CStates r2 # post
        \<and> filter is_installer_call post = [])"
proof -
  have h1: "\<not> m (testDaemon ''1.0'' ''2.0'')"
    by (simp add: testDaemon_def)
  have h2: "0 < requestsWG (testDaemon ''1.0'' ''2.0'')"
    by (simp add: testDaemon_def)
  from refreshState_around_operations [OF h1, of testEnv "''bad''" "''agent''"
      "testRequest methodStopExperiment [] ''1.0'' ''2.0''"] h1 h2
  show ?thesis by blast
qed

subsection \<open>C1: a request whose expected state does not match\<close>

text \<open>
  Claim C1. When the state the installer reports for the request's package differs from the
  request's expected state, in the stable or in the experiment version,
  \<^verbatim>\<open>handleRemoteAPIRequest\<close> returns nil, the request ends in \<open>INVALID_STATE\<close>, and none of
  \<^verbatim>\<open>Install\<close>, \<^verbatim>\<open>InstallExperiment\<close>, \<^verbatim>\<open>PromoteExperiment\<close> and \<^verbatim>\<open>RemoveExperiment\<close> is called.
  The request is one the loop took from the channel: the mutex is free and the wait group
  counts the request.
\<close>

theorem handleRemoteAPIRequest_state_mismatch:
  assumes "\<not> m d" and "0 < requestsWG d"
    and "reported_state E request d = Inr s"
    and "Stable s \<noteq> es_Stable (req_ExpectedState request)
         \<or> Experiment s \<noteq> es_Experiment (req_ExpectedState request)"
  shows "\<exists>ctx d' delta.
           handleRemoteAPIRequest E request d = Returns (None, ctx, d')
           \<and> rs_State ctx = INVALID_STATE
           \<and> calls d' = calls d @ delta
           \<and> CState (req_Package request) (Inr s) \<in> set delta
           \<and> filter is_mutating delta = []"
  using assms by (auto simp add: handle_defs op_simps)

theorem handleRemoteAPIRequest_state_mismatch_witness:
  "\<not> m (testDaemon ''1.0'' [])
   \<and> 0 < requestsWG (testDaemon ''1.0'' [])
   \<and> reported_state testEnv (testRequest methodStopExperiment [] ''1.0'' ''2.0'')
        (testDaemon ''1.0'' [])
       = Inr \<lparr>Stable = ''1.0'', Experiment = []\<rparr>
   \<and> Experiment \<lparr>Stable = ''1.0'', Experiment = []\<rparr>
       \<noteq> es_Experiment (req_ExpectedState (testRequest methodStopExperiment [] ''1.0'' ''2.0''))
   \<and> (\<exists>ctx d' delta.
         handleRemoteAPIRequest testEnv (testRequest methodStopExperiment [] ''1.0'' ''2.0'')
           (testDaemon ''1.0'' []) = Returns (None, ctx, d')
         \<and> rs_State ctx = INVALID_STATE
         \<and> calls d' = calls (testDaemon ''1.0'' []) @ delta
         \<and> CState (req_Package (testRequest methodStopExperiment [] ''1.0'' ''2.0''))
              (Inr \<lparr>Stable = ''1.0'', Experiment = []\<rparr>) \<in> set delta
         \<and> filter is_mutating delta = [])"
proof -
  have h1: "\<not> m (testDaemon ''1.0'' [])"
    by (simp add: testDaemon_def)
  have h2: "0 < requestsWG (testDaemon ''1.0'' [])"
    by (simp add: testDaemon_def)
  have h3: "reported_state testEnv (testRequest methodStopExperiment [] ''1.0'' ''2.0'')
              (testDaemon ''1.0'' []) = Inr \<lparr>Stable = ''1.0'', Experiment = []\<rparr>"
    by (simp add: reported_state_def test_defs)
  have h5: "Experiment \<lparr>Stable = ''1.0'', Experiment = []\<rparr>
              \<noteq> es_Experiment (req_ExpectedState (testRequest methodStopExperiment [] ''1.0'' ''2.0''))"
    by (simp add: testRequest_def)
  then have h4: "Stable \<lparr>Stable = ''1.0'', Experiment = []\<rparr>
              \<noteq> es_Stable (req_ExpectedState (testRequest methodStopExperiment [] ''1.0'' ''2.0''))
            \<or> Experiment \<lparr>Stable = ''1.0'', Experiment = []\<rparr>
              \<noteq> es_Experiment (req_ExpectedState (testRequest methodStopExperiment [] ''1.0'' ''2.0''))"
    by (rule disjI2)
  from handleRemoteAPIRequest_state_mismatch [OF h1 h2 h3 h4] h1 h2 h3 h5
  show ?thesis by (intro conjI)
qed

subsection \<open>C2: a request whose expected state matches\<close>

text \<open>
  Claim C2, as stated: every request whose expected state matches makes exactly one
  installer call, the one its method names, and ends in \<open>DONE\<close> or \<open>ERROR\<close> with that call's
  outcome. It fails for a StartExperiment request whose version the catalog does not hold:
  the expected state matches and no mutating installer call is made.
\<close>

theorem handleRemoteAPIRequest_dispatch_counterexample:
  "reported_state testEnv (testRequest methodStartExperiment ''9.9'' ''1.0'' [])
     (testDaemon ''1.0'' [])
     = Inr \<lparr>Stable = ''1.0'', Experiment = []\<rparr>
   \<and> es_Stable (req_ExpectedState (testRequest methodStartExperiment ''9.9'' ''1.0'' [])) = ''1.0''
   \<and> es_Experiment (req_ExpectedState (testRequest methodStartExperiment ''9.9'' ''1.0'' [])) = []
   \<and> map_option (filter is_mutating \<circ> calls \<circ> snd \<circ> snd)
       (returned (handleRemoteAPIRequest testEnv
          (testRequest methodStartExperiment ''9.9'' ''1.0'' []) (testDaemon ''1.0'' [])))
       = Some []"
  by (simp add: handle_defs op_simps test_defs returned_def)

text \<open>
  Claim C2, amended. A request whose expected state matches, whose method is
  StartExperiment, StopExperiment or PromoteExperiment and, for StartExperiment, whose
  parameters decode to a version that the catalog holds for the current architecture and OS,
  makes exactly one mutating installer call: \<^verbatim>\<open>InstallExperiment\<close> with the URL of the
  catalog's package, \<^verbatim>\<open>RemoveExperiment\<close> or \<^verbatim>\<open>PromoteExperiment\<close> with the request's package.
  When that call returns nil the request ends in \<open>DONE\<close> and nil is returned; when it
  returns an error the request ends in \<open>ERROR\<close> with the installer error made from the
  wrapped error, which is returned.
\<close>

theorem handleRemoteAPIRequest_dispatch:
  assumes "\<not> m d" and "0 < requestsWG d"
    and "reported_state E request d = Inr s"
    and "Stable s = es_Stable (req_ExpectedState request)"
    and "Experiment s = es_Experiment (req_ExpectedState request)"
  shows "(req_Method request = methodStartExperiment
          \<longrightarrow> json_Unmarshal E (req_Params request) = Inr params
          \<longrightarrow> getPackage (catalog d) (req_Package request) (tp_Version params) (GOARCH E) (GOOS E)
                = (p, True)
          \<longrightarrow> (\<exists>res ctx d' delta.
                 handleRemoteAPIRequest E request d
                   = Returns (map_option (Wrap ''could not install experiment: '') res, ctx, d')
                 \<and> calls d' = calls d @ delta
                 \<and> filter is_mutating delta = [CInstallExperiment (URL p) res]
                 \<and> (case res of
                       None \<Rightarrow> rs_State ctx = DONE \<and> rs_Err ctx = None
                     | Some e \<Rightarrow> rs_State ctx = ERROR
                         \<and> rs_Err ctx = Some (From E (Wrap ''could not install experiment: '' e)))))
       \<and> (req_Method request = methodStopExperiment
          \<longrightarrow> (\<exists>res ctx d' delta.
                 handleRemoteAPIRequest E request d
                   = Returns (map_option (Wrap ''could not stop experiment: '') res, ctx, d')
                 \<and> calls d' = calls d @ delta
                 \<and> filter is_mutating delta = [CRemoveExperiment (req_Package request) res]
                 \<and> (case res of
                       None \<Rightarrow> rs_State ctx = DONE \<and> rs_Err ctx = None
                     | Some e \<Rightarrow> rs_State ctx = ERROR
                         \<and> rs_Err ctx = Some (From E (Wrap ''could not stop experiment: '' e)))))
       \<and> (req_Method request = methodPromoteExperiment
          \<longrightarrow> (\<exists>res ctx d' delta.
                 handleRemoteAPIRequest E request d
                   = Returns (map_option (Wrap ''could not promote experiment: '') res, ctx, d')
                 \<and> calls d' = calls d @ delta
                 \<and> filter is_mutating delta = [CPromoteExperiment (req_Package request) res]
                 \<and> (case res of
                       None \<Rightarrow> rs_State ctx = DONE \<and> rs_Err ctx = None
                     | Some e \<Rightarrow> rs_State ctx = ERROR
                         \<and> rs_Err ctx = Some (From E (Wrap ''could not promote experiment: '' e)))))"
  using assms
  by (auto simp add: handle_defs op_simps wrap_map_option methodStartExperiment_def
      methodStopExperiment_def methodPromoteExperiment_def split: option.splits)

theorem handleRemoteAPIRequest_dispatch_witness:
  "reported_state testEnv (testRequest methodStartExperiment ''3.0'' ''1.0'' [])
     (testDaemon ''1.0'' []) = Inr \<lparr>Stable = ''1.0'', Experiment = []\<rparr>
   \<and> reported_state testEnv (testRequest methodStopExperiment [] ''1.0'' ''2.0'')
     (testDaemon ''1.0'' ''2.0'') = Inr \<lparr>Stable = ''1.0'', Experiment = ''2.0''\<rparr>
   \<and> reported_state testEnv (testRequest methodPromoteExperiment [] ''1.0'' ''2.0'')
     (testDaemon ''1.0'' ''2.0'') = Inr \<lparr>Stable = ''1.0'', Experiment = ''2.0''\<rparr>
   \<and> (\<exists>res ctx d' delta.
      handleRemoteAPIRequest testEnv (testRequest methodStartExperiment ''3.0'' ''1.0'' [])
        (testDaemon ''1.0'' [])
        = Returns (map_option (Wrap ''could not install experiment: '') res, ctx, d')
      \<and> calls d' = calls (testDaemon ''1.0'' []) @ delta
      \<and> filter is_mutating delta = [CInstallExperiment (URL agent3) res]
      \<and> (case res of
            None \<Rightarrow> rs_State ctx = DONE \<and> rs_Err ctx = None
          | Some e \<Rightarrow> rs_State ctx = ERROR
              \<and> rs_Err ctx = Some (From testEnv (Wrap ''could not install experiment: '' e))))
   \<and> (\<exists>res ctx d' delta.
      handleRemoteAPIRequest testEnv (testRequest methodStopExperiment [] ''1.0'' ''2.0'')
        (testDaemon ''1.0'' ''2.0'')
        = Returns (map_option (Wrap ''could not stop experiment: '') res, ctx, d')
      \<and> calls d' = calls (testDaemon ''1.0'' ''2.0'') @ delta
      \<and> filter is_mutating delta
          = [CRemoveExperiment (req_Package (testRequest methodStopExperiment [] ''1.0'' ''2.0'')) res]
      \<and> (case res of
            None \<Rightarrow> rs_State ctx = DONE \<and> rs_Err ctx = None
          | Some e \<Rightarrow> rs_State ctx = ERROR
              \<and> rs_Err ctx = Some (From testEnv (Wrap ''could not stop experiment: '' e))))
   \<and> (\<exists>res ctx d' delta.
      handleRemoteAPIRequest testEnv (testRequest methodPromoteExperiment [] ''1.0'' ''2.0'')
        (testDaemon ''1.0'' ''2.0'')
        = Returns (map_option (Wrap ''could not promote experiment: '') res, ctx, d')
      \<and> calls d' = calls (testDaemon ''1.0'' ''2.0'') @ delta
      \<and> filter is_mutating delta
          = [CPromoteExperiment (req_Package (testRequest methodPromoteExperiment [] ''1.0'' ''2.0'')) res]
      \<and> (case res of
            None \<Rightarrow> rs_State ctx = DONE \<and> rs_Err ctx = None
          | Some e \<Rightarrow> rs_State ctx = ERROR
              \<and> rs_Err ctx = Some (From testEnv (Wrap ''could not promote experiment: '' e))))"
proof -
  have m1: "\<not> m (testDaemon ''1.0'' [])" and w1: "0 < requestsWG (testDaemon ''1.0'' [])"
    and m2: "\<not> m (testDaemon ''1.0'' ''2.0'')" and w2: "0 < requestsWG (testDaemon ''1.0'' ''2.0'')"
    by (simp_all add: testDaemon_def)
  have s1: "reported_state testEnv (testRequest methodStartExperiment ''3.0'' ''1.0'' [])
              (testDaemon ''1.0'' []) = Inr \<lparr>Stable = ''1.0'', Experiment = []\<rparr>"
    and s2: "reported_state testEnv (testRequest methodStopExperiment [] ''1.0'' ''2.0'')
              (testDaemon ''1.0'' ''2.0'') = Inr \<lparr>Stable = ''1.0'', Experiment = ''2.0''\<rparr>"
    and s3: "reported_state testEnv (testRequest methodPromoteExperiment [] ''1.0'' ''2.0'')
              (testDaemon ''1.0'' ''2.0'') = Inr \<lparr>Stable = ''1.0'', Experiment = ''2.0''\<rparr>"
    by (simp_all add: reported_state_def test_defs)
  have e1: "Stable \<lparr>Stable = ''1.0'', Experiment = []\<rparr>
              = es_Stable (req_ExpectedState (testRequest methodStartExperiment ''3.0'' ''1.0'' []))"
    "Experiment \<lparr>Stable = ''1.0'', Experiment = []\<rparr>
              = es_Experiment (req_ExpectedState (testRequest methodStartExperiment ''3.0'' ''1.0'' []))"
    and e2: "Stable \<lparr>Stable = ''1.0'', Experiment = ''2.0''\<rparr>
              = es_Stable (req_ExpectedState (testRequest methodStopExperiment [] ''1.0'' ''2.0''))"
    "Experiment \<lparr>Stable = ''1.0'', Experiment = ''2.0''\<rparr>
              = es_Experiment (req_ExpectedState (testRequest methodStopExperiment [] ''1.0'' ''2.0''))"
    and e3: "Stable \<lparr>Stable = ''1.0'', Experiment = ''2.0''\<rparr>
              = es_Stable (req_ExpectedState (testRequest methodPromoteExperiment [] ''1.0'' ''2.0''))"
    "Experiment \<lparr>Stable = ''1.0'', Experiment = ''2.0''\<rparr>
              = es_Experiment (req_ExpectedState (testRequest methodPromoteExperiment [] ''1.0'' ''2.0''))"
    by (simp_all add: testRequest_def)
  have k1: "req_Method (testRequest methodStartExperiment ''3.0'' ''1.0'' []) = methodStartExperiment"
    and k2: "req_Method (testRequest methodStopExperiment [] ''1.0'' ''2.0'') = methodStopExperiment"
    and k3: "req_Method (testRequest methodPromoteExperiment [] ''1.0'' ''2.0'')
               = methodPromoteExperiment"
    by (simp_all add: testRequest_def)
  have u: "json_Unmarshal testEnv (req_Params (testRequest methodStartExperiment ''3.0'' ''1.0'' []))
             = Inr \<lparr>tp_Version = ''3.0''\<rparr>"
    by (simp add: testEnv_def testRequest_def)
  have g: "getPackage (catalog (testDaemon ''1.0'' []))
             (req_Package (testRequest methodStartExperiment ''3.0'' ''1.0'' []))
             (tp_Version \<lparr>tp_Version = ''3.0''\<rparr>) (GOARCH testEnv) (GOOS testEnv) = (agent3, True)"
    by (simp add: test_defs)
  note a = handleRemoteAPIRequest_dispatch [OF m1 w1 s1 e1, THEN conjunct1, rule_format, OF k1 u g]
  note b = handleRemoteAPIRequest_dispatch [OF m2 w2 s2 e2, THEN conjunct2, THEN conjunct1,
      rule_format, OF k2]
  note c = handleRemoteAPIRequest_dispatch [OF m2 w2 s3 e3, THEN conjunct2, THEN conjunct2,
      rule_format, OF k3]
  from s1 s2 s3 a b c show ?thesis by (intro conjI)
qed

subsection \<open>C8: a request with an unknown method\<close>

text \<open>
  Claim C8, as stated: every request whose method is none of the three makes
  \<^verbatim>\<open>handleRemoteAPIRequest\<close> return an error that names the method, and the request reaches
  a terminal status. The first part fails when the expected state does not match: the
  state is compared before the method is looked at, and the request is dropped with a nil
  error. The second fails when \<^verbatim>\<open>installer.State\<close> itself returns an error: the handler
  returns before \<^verbatim>\<open>setRequestDone\<close> is deferred and the request stays \<open>RUNNING\<close>.
\<close>

theorem handleRemoteAPIRequest_unknown_method_counterexample:
  "req_Method (testRequest ''Uninstall'' [] ''1.0'' ''2.0'') \<noteq> methodStartExperiment
   \<and> req_Method (testRequest ''Uninstall'' [] ''1.0'' ''2.0'') \<noteq> methodStopExperiment
   \<and> req_Method (testRequest ''Uninstall'' [] ''1.0'' ''2.0'') \<noteq> methodPromoteExperiment
   \<and> map_option fst
       (returned (handleRemoteAPIRequest testEnv (testRequest ''Uninstall'' [] ''1.0'' ''2.0'')
          (testDaemon ''1.0'' []))) = Some None
   \<and> reported_state testEnv (testRequest ''Uninstall'' [] ''1.0'' ''2.0'')
       ((testDaemon ''1.0'' ''2.0'')\<lparr>installer := []\<rparr>) = Inl (New ''unknown package'')
   \<and> map_option (rs_State \<circ> fst \<circ> snd)
       (returned (handleRemoteAPIRequest testEnv (testRequest ''Uninstall'' [] ''1.0'' ''2.0'')
          ((testDaemon ''1.0'' ''2.0'')\<lparr>installer := []\<rparr>))) = Some RUNNING"
  by (simp add: handle_defs op_simps test_defs returned_def)

text \<open>
  Claim C8, amended. A request whose method is none of StartExperiment, StopExperiment and
  PromoteExperiment makes no mutating installer call, and the loop goes on after it: the
  turn that handled the request, taken from the head of the channel, leaves the rest of the
  channel in place and continues with the cases that fire next. When the installer reports
  a state for the request's package, the request reaches a terminal status: if the expected
  state matches, \<^verbatim>\<open>handleRemoteAPIRequest\<close> returns the error \<open>unknown method: \<close> followed
  by the method and the request ends in \<open>ERROR\<close> with the installer error made from that
  error; if it does not match, nil is returned and the request ends in \<open>INVALID_STATE\<close>.
\<close>

theorem handleRemoteAPIRequest_unknown_method:
  assumes "\<not> m d" and "0 < requestsWG d"
    and "req_Method request \<noteq> methodStartExperiment"
    and "req_Method request \<noteq> methodStopExperiment"
    and "req_Method request \<noteq> methodPromoteExperiment"
  shows "\<exists>err ctx d' delta.
           handleRemoteAPIRequest E request d = Returns (err, ctx, d')
           \<and> calls d' = calls d @ delta
           \<and> filter is_mutating delta = []
           \<and> requests d' = requests d
           \<and> (\<forall>cs. loop E (Request # cs) (d\<lparr>requests := request # requests d\<rparr>) = loop E cs d')
           \<and> (\<forall>s. reported_state E request d = Inr s \<longrightarrow>
                 (if Stable s = es_Stable (req_ExpectedState request)
                     \<and> Experiment s = es_Experiment (req_ExpectedState request)
                  then err = Some (New (''unknown method: '' @ req_Method request))
                       \<and> rs_State ctx = ERROR
                       \<and> rs_Err ctx = Some (From E (New (''unknown method: '' @ req_Method request)))
                  else err = None \<and> rs_State ctx = INVALID_STATE))"
proof (cases "reported_state E request d")
  case (Inl e)
  with assms show ?thesis
    by (auto simp add: handle_defs op_simps loop_turn_def)
next
  case (Inr s)
  with assms show ?thesis
    by (auto simp add: handle_defs op_simps loop_turn_def)
qed

theorem handleRemoteAPIRequest_unknown_method_witness:
  "reported_state testEnv (testRequest ''Uninstall'' [] ''1.0'' ''2.0'') (testDaemon ''1.0'' ''2.0'')
     = Inr \<lparr>Stable = ''1.0'', Experiment = ''2.0''\<rparr>
   \<and> reported_state testEnv (testRequest ''Uninstall'' [] ''1.0'' ''2.0'') (testDaemon ''1.0'' [])
     = Inr \<lparr>Stable = ''1.0'', Experiment = []\<rparr>
   \<and> req_Method (testRequest ''Uninstall'' [] ''1.0'' ''2.0'') \<noteq> methodStartExperiment
   \<and> req_Method (testRequest ''Uninstall'' [] ''1.0'' ''2.0'') \<noteq> methodStopExperiment
   \<and> req_Method (testRequest ''Uninstall'' [] ''1.0'' ''2.0'') \<noteq> methodPromoteExperiment
   \<and> (\<exists>ctx d' delta.
         handleRemoteAPIRequest testEnv (testRequest ''Uninstall'' [] ''1.0'' ''2.0'')
           (testDaemon ''1.0'' ''2.0'')
           = Returns (Some (New ''unknown method: Uninstall''), ctx, d')
         \<and> rs_State ctx = ERROR
         \<and> rs_Err ctx = Some \<lparr>ie_Code = 0, ie_Error = ''unknown method: Uninstall''\<rparr>
         \<and> calls d' = calls (testDaemon ''1.0'' ''2.0'') @ delta
         \<and> filter is_mutating delta = []
         \<and> requests d' = requests (testDaemon ''1.0'' ''2.0'')
         \<and> (\<forall>cs. loop testEnv (Request # cs)
                    ((testDaemon ''1.0'' ''2.0'')
                       \<lparr>requests := testRequest ''Uninstall'' [] ''1.0'' ''2.0''
                                       # requests (testDaemon ''1.0'' ''2.0'')\<rparr>)
                  = loop testEnv cs d'))
   \<and> (\<exists>ctx d' delta.
         handleRemoteAPIRequest testEnv (testRequest ''Uninstall'' [] ''1.0'' ''2.0'')
           (testDaemon ''1.0'' []) = Returns (None, ctx, d')
         \<and> rs_State ctx = INVALID_STATE
         \<and> calls d' = calls (testDaemon ''1.0'' []) @ delta
         \<and> filter is_mutating delta = []
         \<and> requests d' = requests (testDaemon ''1.0'' [])
         \<and> (\<forall>cs. loop testEnv (Request # cs)
                    ((testDaemon ''1.0'' [])
                       \<lparr>requests := testRequest ''Uninstall'' [] ''1.0'' ''2.0''
                                       # requests (testDaemon ''1.0'' [])\<rparr>)
                  = loop testEnv cs d'))"
proof -
  let ?r = "testRequest ''Uninstall'' [] ''1.0'' ''2.0''"
  have a1: "\<not> m (testDaemon ''1.0'' ''2.0'')" and a2: "0 < requestsWG (testDaemon ''1.0'' ''2.0'')"
    and b1: "\<not> m (testDaemon ''1.0'' [])" and b2: "0 < requestsWG (testDaemon ''1.0'' [])"
    by (simp_all add: testDaemon_def)
  have sa: "reported_state testEnv ?r (testDaemon ''1.0'' ''2.0'')
              = Inr \<lparr>Stable = ''1.0'', Experiment = ''2.0''\<rparr>"
    and sb: "reported_state testEnv ?r (testDaemon ''1.0'' [])
              = Inr \<lparr>Stable = ''1.0'', Experiment = []\<rparr>"
    by (simp_all add: reported_state_def test_defs)
  have k1: "req_Method ?r \<noteq> methodStartExperiment"
    and k2: "req_Method ?r \<noteq> methodStopExperiment"
    and k3: "req_Method ?r \<noteq> methodPromoteExperiment"
    by (simp_all add: test_defs)
  have n: "req_Method ?r = ''Uninstall''"
    and ma: "Stable \<lparr>Stable = ''1.0'', Experiment = ''2.0''\<rparr> = es_Stable (req_ExpectedState ?r)
             \<and> Experiment \<lparr>Stable = ''1.0'', Experiment = ''2.0''\<rparr>
                 = es_Experiment (req_ExpectedState ?r)"
    and mb: "\<not> (Stable \<lparr>Stable = ''1.0'', Experiment = []\<rparr> = es_Stable (req_ExpectedState ?r)
             \<and> Experiment \<lparr>Stable = ''1.0'', Experiment = []\<rparr>
                 = es_Experiment (req_ExpectedState ?r))"
    by (simp_all add: testRequest_def)
  have f: "From testEnv (New ''unknown method: Uninstall'')
             = \<lparr>ie_Code = 0, ie_Error = ''unknown method: Uninstall''\<rparr>"
    by (simp add: testEnv_def)
  from handleRemoteAPIRequest_unknown_method [OF a1 a2 k1 k2 k3, of testEnv]
  obtain err ctx d' delta where
    r: "handleRemoteAPIRequest testEnv ?r (testDaemon ''1.0'' ''2.0'') = Returns (err, ctx, d')"
    and c: "calls d' = calls (testDaemon ''1.0'' ''2.0'') @ delta" "filter is_mutating delta = []"
      "requests d' = requests (testDaemon ''1.0'' ''2.0'')"
      "\<forall>cs. loop testEnv (Request # cs)
              ((testDaemon ''1.0'' ''2.0'')\<lparr>requests := ?r # requests (testDaemon ''1.0'' ''2.0'')\<rparr>)
            = loop testEnv cs d'"
    and t: "\<forall>s. reported_state testEnv ?r (testDaemon ''1.0'' ''2.0'') = Inr s \<longrightarrow>
                 (if Stable s = es_Stable (req_ExpectedState ?r)
                     \<and> Experiment s = es_Experiment (req_ExpectedState ?r)
                  then err = Some (New (''unknown method: '' @ req_Method ?r))
                       \<and> rs_State ctx = ERROR
                       \<and> rs_Err ctx = Some (From testEnv (New (''unknown method: '' @ req_Method ?r)))
                  else err = None \<and> rs_State ctx = INVALID_STATE)"
    by blast
  from t [rule_format, OF sa] ma
  have "err = Some (New ''unknown method: Uninstall'') \<and> rs_State ctx = ERROR
        \<and> rs_Err ctx = Some \<lparr>ie_Code = 0, ie_Error = ''unknown method: Uninstall''\<rparr>"
    by (simp add: n f)
  with r c have A: "\<exists>ctx d' delta.
         handleRemoteAPIRequest testEnv ?r (testDaemon ''1.0'' ''2.0'')
           = Returns (Some (New ''unknown method: Uninstall''), ctx, d')
         \<and> rs_State ctx = ERROR
         \<and> rs_Err ctx = Some \<lparr>ie_Code = 0, ie_Error = ''unknown method: Uninstall''\<rparr>
         \<and> calls d' = calls (testDaemon ''1.0'' ''2.0'') @ delta
         \<and> filter is_mutating delta = []
         \<and> requests d' = requests (testDaemon ''1.0'' ''2.0'')
         \<and> (\<forall>cs. loop testEnv (Request # cs)
                    ((testDaemon ''1.0'' ''2.0'')
                       \<lparr>requests := ?r # requests (testDaemon ''1.0'' ''2.0'')\<rparr>)
                  = loop testEnv cs d')"
    by blast
  from handleRemoteAPIRequest_unknown_method [OF b1 b2 k1 k2 k3, of testEnv]
  obtain err2 ctx2 d2 delta2 where
    r2: "handleRemoteAPIRequest testEnv ?r (testDaemon ''1.0'' []) = Returns (err2, ctx2, d2)"
    and c2: "calls d2 = calls (testDaemon ''1.0'' []) @ delta2" "filter is_mutating delta2 = []"
      "requests d2 = requests (testDaemon ''1.0'' [])"
      "\<forall>cs. loop testEnv (Request # cs)
              ((testDaemon ''1.0'' [])\<lparr>requests := ?r # requests (testDaemon ''1.0'' [])\<rparr>)
            = loop testEnv cs d2"
    and t2: "\<forall>s. reported_state testEnv ?r (testDaemon ''1.0'' []) = Inr s \<longrightarrow>
                 (if Stable s = es_Stable (req_ExpectedState ?r)
                     \<and> Experiment s = es_Experiment (req_ExpectedState ?r)
                  then err2 = Some (New (''unknown method: '' @ req_Method ?r))
                       \<and> rs_State ctx2 = ERROR
                       \<and> rs_Err ctx2 = Some (From testEnv (New (''unknown method: '' @ req_Method ?r)))
                  else err2 = None \<and> rs_State ctx2 = INVALID_STATE)"
    by blast
  from t2 [rule_format, OF sb] mb
  have "err2 = None \<and> rs_State ctx2 = INVALID_STATE"
    by simp
  with r2 c2 have B: "\<exists>ctx d' delta.
         handleRemoteAPIRequest testEnv ?r (testDaemon ''1.0'' []) = Returns (None, ctx, d')
         \<and> rs_State ctx = INVALID_STATE
         \<and> calls d' = calls (testDaemon ''1.0'' []) @ delta
         \<and> filter is_mutating delta = []
         \<and> requests d' = requests (testDaemon ''1.0'' [])
         \<and> (\<forall>cs. loop testEnv (Request # cs)
                    ((testDaemon ''1.0'' [])\<lparr>requests := ?r # requests (testDaemon ''1.0'' [])\<rparr>)
                  = loop testEnv cs d')"
    by blast
  from sa sb k1 k2 k3 A B show ?thesis by (intro conjI)
qed

subsection \<open>C10: a StartExperiment request that cannot be resolved\<close>

text \<open>
  Claim C10. For a StartExperiment request whose expected state matches, when the
  parameters do not decode, or decode to a version that the catalog lookup for the current
  architecture and OS does not find, \<^verbatim>\<open>InstallExperiment\<close> (and every other mutating installer
  call) is not made, and the request ends in \<open>ERROR\<close> with the installer error made from
  the returned error, not in \<open>INVALID_STATE\<close>.
\<close>

theorem handleRemoteAPIRequest_start_unresolved:
  assumes "\<not> m d" and "0 < requestsWG d"
    and "reported_state E request d = Inr s"
    and "Stable s = es_Stable (req_ExpectedState request)"
    and "Experiment s = es_Experiment (req_ExpectedState request)"
    and "req_Method request = methodStartExperiment"
    and "(\<exists>e. json_Unmarshal E (req_Params request) = Inl e)
         \<or> (\<exists>params. json_Unmarshal E (req_Params request) = Inr params
              \<and> \<not> snd (getPackage (catalog d) (req_Package request) (tp_Version params)
                         (GOARCH E) (GOOS E)))"
  shows "\<exists>err ctx d' delta.
           handleRemoteAPIRequest E request d = Returns (Some err, ctx, d')
           \<and> rs_State ctx = ERROR
           \<and> rs_Err ctx = Some (From E err)
           \<and> calls d' = calls d @ delta
           \<and> filter is_mutating delta = []"
  using assms
  by (auto simp add: handle_defs op_simps)

theorem handleRemoteAPIRequest_start_unresolved_witness:
  "json_Unmarshal testEnv (req_Params (testRequest methodStartExperiment [] ''1.0'' []))
     = Inl (New ''unexpected end of JSON input'')
   \<and> (\<exists>err ctx d' delta.
         handleRemoteAPIRequest testEnv (testRequest methodStartExperiment [] ''1.0'' [])
           (testDaemon ''1.0'' []) = Returns (Some err, ctx, d')
         \<and> rs_State ctx = ERROR
         \<and> rs_Err ctx = Some (From testEnv err)
         \<and> calls d' = calls (testDaemon ''1.0'' []) @ delta
         \<and> filter is_mutating delta = [])
   \<and> json_Unmarshal testEnv (req_Params (testRequest methodStartExperiment ''9.9'' ''1.0'' []))
     = Inr \<lparr>tp_Version = ''9.9''\<rparr>
   \<and> \<not> snd (getPackage (catalog (testDaemon ''1.0'' []))
              (req_Package (testRequest methodStartExperiment ''9.9'' ''1.0'' []))
              (tp_Version \<lparr>tp_Version = ''9.9''\<rparr>) (GOARCH testEnv) (GOOS testEnv))
   \<and> (\<exists>err ctx d' delta.
         handleRemoteAPIRequest testEnv (testRequest methodStartExperiment ''9.9'' ''1.0'' [])
           (testDaemon ''1.0'' []) = Returns (Some err, ctx, d')
         \<and> rs_State ctx = ERROR
         \<and> rs_Err ctx = Some (From testEnv err)
         \<and> calls d' = calls (testDaemon ''1.0'' []) @ delta
         \<and> filter is_mutating delta = [])"
proof -
  have h1: "\<not> m (testDaemon ''1.0'' [])" and h2: "0 < requestsWG (testDaemon ''1.0'' [])"
    by (simp_all add: testDaemon_def)
  have sa: "reported_state testEnv (testRequest methodStartExperiment [] ''1.0'' [])
              (testDaemon ''1.0'' []) = Inr \<lparr>Stable = ''1.0'', Experiment = []\<rparr>"
    and sb: "reported_state testEnv (testRequest methodStartExperiment ''9.9'' ''1.0'' [])
              (testDaemon ''1.0'' []) = Inr \<lparr>Stable = ''1.0'', Experiment = []\<rparr>"
    by (simp_all add: reported_state_def test_defs)
  have ea: "Stable \<lparr>Stable = ''1.0'', Experiment = []\<rparr>
              = es_Stable (req_ExpectedState (testRequest methodStartExperiment [] ''1.0'' []))"
    "Experiment \<lparr>Stable = ''1.0'', Experiment = []\<rparr>
              = es_Experiment (req_ExpectedState (testRequest methodStartExperiment [] ''1.0'' []))"
    and eb: "Stable \<lparr>Stable = ''1.0'', Experiment = []\<rparr>
              = es_Stable (req_ExpectedState (testRequest methodStartExperiment ''9.9'' ''1.0'' []))"
    "Experiment \<lparr>Stable = ''1.0'', Experiment = []\<rparr>
              = es_Experiment (req_ExpectedState (testRequest methodStartExperiment ''9.9'' ''1.0'' []))"
    by (simp_all add: testRequest_def)
  have ka: "req_Method (testRequest methodStartExperiment [] ''1.0'' []) = methodStartExperiment"
    and kb: "req_Method (testRequest methodStartExperiment ''9.9'' ''1.0'' []) = methodStartExperiment"
    by (simp_all add: testRequest_def)
  have ua: "json_Unmarshal testEnv (req_Params (testRequest methodStartExperiment [] ''1.0'' []))
              = Inl (New ''unexpected end of JSON input'')"
    and ub: "json_Unmarshal testEnv (req_Params (testRequest methodStartExperiment ''9.9'' ''1.0'' []))
              = Inr \<lparr>tp_Version = ''9.9''\<rparr>"
    by (simp_all add: testEnv_def testRequest_def)
  have gb: "\<not> snd (getPackage (catalog (testDaemon ''1.0'' []))
              (req_Package (testRequest methodStartExperiment ''9.9'' ''1.0'' []))
              (tp_Version \<lparr>tp_Version = ''9.9''\<rparr>) (GOARCH testEnv) (GOOS testEnv))"
    by (simp add: test_defs)
  from ua have da: "(\<exists>e. json_Unmarshal testEnv
                          (req_Params (testRequest methodStartExperiment [] ''1.0'' [])) = Inl e)
         \<or> (\<exists>params. json_Unmarshal testEnv
                          (req_Params (testRequest methodStartExperiment [] ''1.0'' [])) = Inr params
              \<and> \<not> snd (getPackage (catalog (testDaemon ''1.0'' []))
                         (req_Package (testRequest methodStartExperiment [] ''1.0'' []))
                         (tp_Version params) (GOARCH testEnv) (GOOS testEnv)))"
    by blast
  from ub gb have db: "(\<exists>e. json_Unmarshal testEnv
                          (req_Params (testRequest methodStartExperiment ''9.9'' ''1.0'' [])) = Inl e)
         \<or> (\<exists>params. json_Unmarshal testEnv
                          (req_Params (testRequest methodStartExperiment ''9.9'' ''1.0'' [])) = Inr params
              \<and> \<not> snd (getPackage (catalog (testDaemon ''1.0'' []))
                         (req_Package (testRequest methodStartExperiment ''9.9'' ''1.0'' []))
                         (tp_Version params) (GOARCH testEnv) (GOOS testEnv)))"
    by blast
  from handleRemoteAPIRequest_start_unresolved [OF h1 h2 sa ea ka da]
    handleRemoteAPIRequest_start_unresolved [OF h1 h2 sb eb kb db] ua ub gb
  show ?thesis by (intro conjI)
qed

subsection \<open>C4: stopping\<close>

text \<open>
  While \<^verbatim>\<open>Stop\<close> holds the mutex nothing that takes the mutex moves, and \<^verbatim>\<open>Stop\<close> does not
  return while the wait group is above zero.
\<close>

lemma handleRemoteAPIRequest_held: "m d \<Longrightarrow> handleRemoteAPIRequest E request d = Blocks"
  by (simp add: handleRemoteAPIRequest_def)

lemma gc_held: "m d \<Longrightarrow> loop_turn E GcTimer d = Blocks"
  by (simp add: loop_turn_def)

lemma api_held: "m d \<Longrightarrow> api E c d = Blocks"
  by (cases c)
    (simp_all add: Install_def StartExperiment_def PromoteExperiment_def StopExperiment_def
      GetPackage_def GetState_def handleCatalogUpdate_def locked_held)

lemma Stop_wait_outstanding: "requestsWG d \<noteq> 0 \<Longrightarrow> Stop_wait d = Blocks"
  by (simp add: Stop_wait_def requestsWG_Wait_def)

lemma step_while_Stop_waits:
  assumes "step E s s'"
    and "stop_at s = StopWaiting" and "m (dm s)" and "0 < requestsWG (dm s)"
  shows "stop_at s' = StopWaiting \<and> m (dm s') \<and> 0 < requestsWG (dm s')
         \<and> calls (dm s') = calls (dm s)"
  using assms
proof (cases rule: step.cases)
  case (schedule_add d' request)
  then show ?thesis
    using assms by (auto simp add: requestsWG_Add_def split: if_splits)
next
  case (schedule_send before request after d')
  then show ?thesis
    using assms by (auto simp add: requests_send_def split: if_splits)
qed (auto simp add: handleRemoteAPIRequest_held gc_held api_held Stop_wait_outstanding)

text \<open>
  Claim C4 says that \<^verbatim>\<open>Stop\<close> waits for the enqueued requests through the channel close
  and the wait group and not through the mutex, so that an enqueued request can always
  complete while \<^verbatim>\<open>Stop\<close> waits. The code waits for the wait group while it holds the
  mutex, and \<^verbatim>\<open>handleRemoteAPIRequest\<close> takes the mutex before its deferred
  \<^verbatim>\<open>requestsWG.Done\<close>: once \<^verbatim>\<open>Stop\<close> waits with the wait group above zero, in every state
  the goroutines can reach \<^verbatim>\<open>Stop\<close> is still waiting, the wait group is still above zero,
  and no call has been made on the installer or the remote-config client, so no request
  has been handled.
\<close>

theorem Stop_waits_holding_mutex:
  assumes "(step E)\<^sup>*\<^sup>* s s'"
    and "stop_at s = StopWaiting" and "m (dm s)" and "0 < requestsWG (dm s)"
  shows "stop_at s' = StopWaiting \<and> m (dm s') \<and> 0 < requestsWG (dm s')
         \<and> calls (dm s') = calls (dm s)"
  using assms
proof (induction rule: rtranclp_induct)
  case base
  then show ?case by simp
next
  case (step y z)
  then have "stop_at y = StopWaiting \<and> m (dm y) \<and> 0 < requestsWG (dm y)
             \<and> calls (dm y) = calls (dm s)"
    by simp
  with step_while_Stop_waits [OF step.hyps(2)] show ?case by simp
qed


theorem Stop_waits_holding_mutex_witness:
  "(step testEnv)\<^sup>*\<^sup>*
     \<lparr>dm = (testDaemon ''1.0'' ''2.0'')\<lparr>requestsWG := 0\<rparr>,
      loop_at = LoopSelect, stop_at = StopNotCalled, senders = []\<rparr>
     \<lparr>dm = (testDaemon ''1.0'' ''2.0'')
             \<lparr>m := True, stopChan := True,
              requests := [testRequest methodStopExperiment [] ''1.0'' ''2.0''],
              calls := [CRcClose]\<rparr>,
      loop_at = LoopSelect, stop_at = StopWaiting, senders = []\<rparr>
   \<and> (step testEnv)\<^sup>*\<^sup>*
     \<lparr>dm = (testDaemon ''1.0'' ''2.0'')
             \<lparr>m := True, stopChan := True,
              requests := [testRequest methodStopExperiment [] ''1.0'' ''2.0''],
              calls := [CRcClose]\<rparr>,
      loop_at = LoopSelect, stop_at = StopWaiting, senders = []\<rparr>
     \<lparr>dm = (testDaemon ''1.0'' ''2.0'')\<lparr>m := True, stopChan := True, calls := [CRcClose]\<rparr>,
      loop_at = LoopHandling (testRequest methodStopExperiment [] ''1.0'' ''2.0''),
      stop_at = StopWaiting, senders = []\<rparr>
   \<and> stop_at
       \<lparr>dm = (testDaemon ''1.0'' ''2.0'')\<lparr>m := True, stopChan := True, calls := [CRcClose]\<rparr>,
        loop_at = LoopHandling (testRequest methodStopExperiment [] ''1.0'' ''2.0''),
        stop_at = StopWaiting, senders = []\<rparr> = StopWaiting
   \<and> 0 < requestsWG
       (dm \<lparr>dm = (testDaemon ''1.0'' ''2.0'')\<lparr>m := True, stopChan := True, calls := [CRcClose]\<rparr>,
            loop_at = LoopHandling (testRequest methodStopExperiment [] ''1.0'' ''2.0''),
            stop_at = StopWaiting, senders = []\<rparr>)
   \<and> handleRemoteAPIRequest testEnv (testRequest methodStopExperiment [] ''1.0'' ''2.0'')
       ((testDaemon ''1.0'' ''2.0'')\<lparr>m := True, stopChan := True, calls := [CRcClose]\<rparr>) = Blocks
   \<and> Stop ((testDaemon ''1.0'' ''2.0'')
             \<lparr>requests := [testRequest methodStopExperiment [] ''1.0'' ''2.0'']\<rparr>) = Blocks"
proof -
  let ?r = "testRequest methodStopExperiment [] ''1.0'' ''2.0''"
  let ?d = "testDaemon ''1.0'' ''2.0''"
  let ?s0 = "\<lparr>dm = ?d\<lparr>requestsWG := 0\<rparr>,
      loop_at = LoopSelect, stop_at = StopNotCalled, senders = []\<rparr>"
  let ?s1 = "\<lparr>dm = ?d, loop_at = LoopSelect, stop_at = StopNotCalled, senders = [?r]\<rparr>"
  let ?s2 = "\<lparr>dm = ?d\<lparr>requests := [?r]\<rparr>,
      loop_at = LoopSelect, stop_at = StopNotCalled, senders = []\<rparr>"
  let ?s3 = "\<lparr>dm = ?d\<lparr>m := True, stopChan := True, requests := [?r], calls := [CRcClose]\<rparr>,
      loop_at = LoopSelect, stop_at = StopWaiting, senders = []\<rparr>"
  let ?s4 = "\<lparr>dm = ?d\<lparr>m := True, stopChan := True, calls := [CRcClose]\<rparr>,
      loop_at = LoopHandling ?r, stop_at = StopWaiting, senders = []\<rparr>"
  have 1: "step testEnv ?s0 ?s1"
    using schedule_add [of ?s0 ?d testEnv ?r]
    by (simp add: requestsWG_Add_def testDaemon_def)
  have 2: "step testEnv ?s1 ?s2"
    using schedule_send [of ?s1 "[]" ?r "[]" "?d\<lparr>requests := [?r]\<rparr>" testEnv]
    by (simp add: requests_send_def testDaemon_def)
  have 3: "step testEnv ?s2 ?s3"
    using stop_enter [of ?s2
        "?d\<lparr>m := True, stopChan := True, requests := [?r], calls := [CRcClose]\<rparr>" testEnv]
    by (simp add: Stop_enter_def rc_Close_def testDaemon_def)
  have 4: "step testEnv ?s3 ?s4"
    using loop_receive [of ?s3 ?r "[]" testEnv]
    by (simp add: testDaemon_def)
  from 1 2 3 have reach: "(step testEnv)\<^sup>*\<^sup>* ?s0 ?s3"
    by (meson rtranclp.rtrancl_into_rtrancl rtranclp.rtrancl_refl)
  from 4 have after: "(step testEnv)\<^sup>*\<^sup>* ?s3 ?s4"
    by (rule r_into_rtranclp)
  have h1: "stop_at ?s3 = StopWaiting" and h2: "m (dm ?s3)" and h3: "0 < requestsWG (dm ?s3)"
    by (simp_all add: testDaemon_def)
  note stuck = Stop_waits_holding_mutex [OF after h1 h2 h3]
  have blocked: "handleRemoteAPIRequest testEnv ?r
      (?d\<lparr>m := True, stopChan := True, calls := [CRcClose]\<rparr>) = Blocks"
    by (simp add: handleRemoteAPIRequest_held)
  have stop: "Stop (?d\<lparr>requests := [?r]\<rparr>) = Blocks"
    by (simp add: Stop_def Stop_enter_def rc_Close_def Stop_wait_def requestsWG_Wait_def
        testDaemon_def)
  note c1 = stuck [THEN conjunct1]
  note c3 = stuck [THEN conjunct2, THEN conjunct2, THEN conjunct1]
  show ?thesis
    by (intro conjI) (rule reach after c1 c3 blocked stop)+
qed

end
